(* ===== verification/Prelude.thy ===== *)
theory Prelude
  imports Main
begin

text \<open>
  Shared vocabulary of the portfolio page model: the named collections that the
  component theories fill, the JavaScript string type, and generic lemmas on
  folds and indexed list updates.  The component theories use these lemmas for the
  \<open>forEach\<close> loops of \<open>src/app/page.tsx\<close>: the intersection callback folds over
  its entries, and the effect cleanup folds over the observers it created.
\<close>

named_theorems page_simps "characteristic equations of the page model"
named_theorems frame_simps "fields an operation of the page model leaves unchanged"

type_synonym js_string = string

subsection \<open>Last write wins\<close>

text \<open>
  A loop that performs the same idempotent update for every element satisfying
  a test has the update's effect exactly when some element satisfies it.  This is
  the shape of a React \<open>setState(c)\<close> call with a constant argument inside
  \<open>forEach\<close>.
\<close>

lemma fold_guarded_idem:
  assumes idem: "\<And>s. g (g s) = g s"
  shows "fold (\<lambda>x s. if P x then g s else s) xs s = (if \<exists>x\<in>set xs. P x then g s else s)"
proof (induction xs arbitrary: s)
  case Nil
  then show ?case by simp
next
  case (Cons x xs)
  then show ?case by (auto simp: idem)
qed

subsection \<open>Index updates by a fold\<close>

text \<open>
  Applying an idempotent change to the elements at a list of positions: the length
  is kept, and an element is changed exactly when its position is in the list.
\<close>

lemma length_fold_update [simp]:
  "length (fold (\<lambda>i xs. xs[i := f (xs ! i)]) ns xs) = length xs"
  by (induction ns arbitrary: xs) auto

lemma nth_fold_update:
  assumes idem: "\<And>x. f (f x) = f x"
    and j: "j < length xs"
  shows "fold (\<lambda>i xs. xs[i := f (xs ! i)]) ns xs ! j = (if j \<in> set ns then f (xs ! j) else xs ! j)"
  using j
proof (induction ns arbitrary: xs)
  case Nil
  then show ?case by simp
next
  case (Cons i ns)
  then show ?case by (cases "i = j") (auto simp: idem)
qed

lemma fold_update_other:
  "j \<notin> set ns \<Longrightarrow> fold (\<lambda>i xs. xs[i := f (xs ! i)]) ns xs ! j = xs ! j"
  by (induction ns arbitrary: xs) auto

end
