(* ===== verification/Sections.thy ===== *)
theory Sections
  imports Prelude
begin

text \<open>
  The section registry of \<open>src/app/page.tsx\<close>: the object \<open>sectionRefs\<close> (lines
  17--24).  It has one React ref per page section, and its keys, in insertion order,
  drive both the observer loop (\<open>Object.entries\<close>, line 66) and the navigation
  (\<open>Object.keys\<close>, lines 114 and 168).  The theory holds the section identifiers,
  their string keys, property access \<open>sectionRefs[k]\<close> with an arbitrary string
  (line 89), and the navigation labels built from the keys (lines 131 and 182).
\<close>

subsection \<open>Identifiers and keys\<close>

datatype section_id = Hero | About | Experience | Education | Skills | Contact

text \<open>\<open>Object.keys(sectionRefs)\<close>: own string keys in insertion order.\<close>

definition sectionRefs_keys :: "section_id list" where
  "sectionRefs_keys = [Hero, About, Experience, Education, Skills, Contact]"

primrec section_name :: "section_id \<Rightarrow> js_string" where
  "section_name Hero = ''hero''"
| "section_name About = ''about''"
| "section_name Experience = ''experience''"
| "section_name Education = ''education''"
| "section_name Skills = ''skills''"
| "section_name Contact = ''contact''"

subsection \<open>Property access with a string key\<close>

text \<open>
  \<open>sectionRefs\<close> is a plain object literal, so \<open>sectionRefs[k]\<close> finds an own
  property first, then a property inherited from \<open>Object.prototype\<close>, and is
  \<open>undefined\<close> otherwise.  The names of \<open>Object.prototype\<close> come from the
  ECMAScript standard library (they are not code of the repository).  An inherited
  property is a function or an object without a \<open>current\<close> field.
\<close>

definition object_prototype_props :: "js_string list" where
  "object_prototype_props =
     [''constructor'', ''__defineGetter__'', ''__defineSetter__'', ''hasOwnProperty'',
      ''__lookupGetter__'', ''__lookupSetter__'', ''isPrototypeOf'',
      ''propertyIsEnumerable'', ''toString'', ''valueOf'', ''__proto__'',
      ''toLocaleString'']"

datatype ref_lookup = OwnRef section_id | InheritedProp | Undefined

definition sectionRefs_get :: "js_string \<Rightarrow> ref_lookup" where
  "sectionRefs_get k =
     (case find (\<lambda>sec. section_name sec = k) sectionRefs_keys of
        Some sec \<Rightarrow> OwnRef sec
      | None \<Rightarrow> if k \<in> set object_prototype_props then InheritedProp else Undefined)"

subsection \<open>Navigation entries and labels\<close>

text \<open>
  \<open>section.charAt(0).toUpperCase() + section.slice(1)\<close>.  The keys are ASCII,
  so \<open>toUpperCase\<close> is modelled on ASCII letters; every other character is kept.
\<close>

definition js_upper_char :: "char \<Rightarrow> char" where
  "js_upper_char c =
     (let n = of_char c :: nat in if 97 \<le> n \<and> n \<le> 122 then char_of (n - 32) else c)"

text \<open>\<open>String.prototype.charAt\<close>, \<open>slice\<close> with one index, and \<open>toUpperCase\<close>.\<close>

definition js_charAt :: "js_string \<Rightarrow> nat \<Rightarrow> js_string" where
  "js_charAt s i = (if i < length s then [s ! i] else [])"

definition js_slice :: "js_string \<Rightarrow> nat \<Rightarrow> js_string" where
  "js_slice s i = drop i s"

definition js_toUpperCase :: "js_string \<Rightarrow> js_string" where
  "js_toUpperCase s = map js_upper_char s"

definition capitalize :: "js_string \<Rightarrow> js_string" where
  "capitalize s = js_toUpperCase (js_charAt s 0) @ js_slice s 1"

text \<open>The sections that get a navigation link: \<open>section !== "hero"\<close>.\<close>

definition nav_sections :: "section_id list" where
  "nav_sections = filter (\<lambda>sec. section_name sec \<noteq> ''hero'') sectionRefs_keys"

definition section_label :: "section_id \<Rightarrow> js_string" where
  "section_label sec = capitalize (section_name sec)"

subsection \<open>The registry enumerates every section once\<close>

lemma sectionRefs_keys_distinct [simp]: "distinct sectionRefs_keys"
  by (simp add: sectionRefs_keys_def)

lemma sectionRefs_keys_set [simp]: "set sectionRefs_keys = UNIV"
proof -
  have "sec \<in> set sectionRefs_keys" for sec
    by (cases sec) (simp_all add: sectionRefs_keys_def)
  then show ?thesis by blast
qed

lemma section_name_inj [simp]: "section_name a = section_name b \<longleftrightarrow> a = b"
  by (cases a; cases b) simp_all

lemma find_section_name_Some:
  "find (\<lambda>sec. section_name sec = k) sectionRefs_keys = Some a \<longleftrightarrow> k = section_name a"
proof
  assume "find (\<lambda>sec. section_name sec = k) sectionRefs_keys = Some a"
  then show "k = section_name a" by (auto simp: find_Some_iff)
next
  assume "k = section_name a"
  then show "find (\<lambda>sec. section_name sec = k) sectionRefs_keys = Some a"
    by (cases a) (simp_all add: sectionRefs_keys_def)
qed

lemma find_section_name_None:
  "find (\<lambda>sec. section_name sec = k) sectionRefs_keys = None \<longleftrightarrow> k \<notin> range section_name"
  by (auto simp: find_None_iff)

lemma sectionRefs_get_section_name [simp]: "sectionRefs_get (section_name sec) = OwnRef sec"
  by (cases sec) (simp_all add: sectionRefs_get_def sectionRefs_keys_def)

lemma section_names_not_inherited:
  "section_name sec \<notin> set object_prototype_props"
  by (cases sec) (simp_all add: object_prototype_props_def)

lemma sectionRefs_get_inherited:
  "k \<in> set object_prototype_props \<Longrightarrow> sectionRefs_get k = InheritedProp"
proof -
  assume k: "k \<in> set object_prototype_props"
  then have "k \<notin> range section_name"
    using section_names_not_inherited by blast
  then have "find (\<lambda>sec. section_name sec = k) sectionRefs_keys = None"
    by (simp add: find_section_name_None)
  with k show ?thesis
    by (simp add: sectionRefs_get_def)
qed

lemma sectionRefs_get_unknown:
  "k \<notin> range section_name \<Longrightarrow> k \<notin> set object_prototype_props \<Longrightarrow> sectionRefs_get k = Undefined"
proof -
  assume "k \<notin> range section_name" and "k \<notin> set object_prototype_props"
  moreover from \<open>k \<notin> range section_name\<close>
  have "find (\<lambda>sec. section_name sec = k) sectionRefs_keys = None"
    by (simp add: find_section_name_None)
  ultimately show ?thesis
    by (simp add: sectionRefs_get_def)
qed

lemma nav_sections_eq: "nav_sections = [About, Experience, Education, Skills, Contact]"
  by (simp add: nav_sections_def sectionRefs_keys_def)

lemma section_name_hero: "section_name sec = ''hero'' \<longleftrightarrow> sec = Hero"
  by (cases sec) simp_all

lemma nav_sections_set: "set nav_sections = - {Hero}"
  by (auto simp: nav_sections_def section_name_hero)

end
