(* ===== verification/Page_State.thy ===== *)
theory Page_State
  imports Sections
begin

text \<open>
  The state of the \<open>Portfolio\<close> component of \<open>src/app/page.tsx\<close>, together with
  the parts of the browser that it writes.  The component keeps three \<open>useState\<close>
  cells (\<open>mounted\<close>, \<open>mobileMenuOpen\<close>, \<open>activeSection\<close>, lines 14--16) and six
  \<open>useRef\<close> cells (lines 17--24).  It also holds the cleanup function that its
  one effect returned, and reads and writes the theme store of \<open>next-themes\<close>
  (line 13).  The browser side of the model is the list of
  \<open>IntersectionObserver\<close> instances ever created, each with its targets and
  whether it is connected, and the log of \<open>scrollIntoView\<close> requests.  The
  lifecycle phase is React's: a component instance is rendered, lives, and is
  unmounted.
\<close>

subsection \<open>DOM nodes and intersection observers\<close>

text \<open>The \<open><section>\<close> element that the ref of each section points to once rendered.\<close>

datatype dom_node = SectionNode section_id

text \<open>
  The options object of line 61: a threshold of 0.2, kept as the percentage 20,
  and the root margin string.
\<close>

record io_options =
  io_threshold_pct :: nat
  io_rootMargin :: js_string

text \<open>
  One \<open>IntersectionObserver\<close>: the section id its callback closes over (line 69
  captures \<open>id\<close> from \<open>Object.entries\<close>), its options, the elements it observes and
  whether \<open>disconnect\<close> has been called.
\<close>

record io_observer =
  obs_section :: section_id
  obs_options :: io_options
  obs_targets :: "dom_node list"
  obs_connected :: bool

text \<open>The fields of an \<open>IntersectionObserverEntry\<close> that the callback can read.\<close>

record io_entry =
  entry_target :: dom_node
  isIntersecting :: bool

subsection \<open>Handler results\<close>

text \<open>
  A JavaScript exception raised by a handler.  React has already queued the
  state updates that the handler made before the throw, so a thrown outcome still
  carries a state.
\<close>

datatype js_error = TypeError js_string

datatype 's outcome = Returned 's | Threw js_error 's

primrec outcome_state :: "'s outcome \<Rightarrow> 's" where
  "outcome_state (Returned s) = s"
| "outcome_state (Threw e s) = s"

primrec map_outcome :: "('s \<Rightarrow> 't) \<Rightarrow> 's outcome \<Rightarrow> 't outcome" where
  "map_outcome f (Returned s) = Returned (f s)"
| "map_outcome f (Threw e s) = Threw e (f s)"

lemma outcome_state_map [simp]: "outcome_state (map_outcome f r) = f (outcome_state r)"
  by (cases r) simp_all

subsection \<open>The component and its browser\<close>

datatype phase = NotMounted | Live | Unmounted

record page_state =
  mounted :: bool
  mobileMenuOpen :: bool
  activeSection :: js_string
  refs :: "section_id \<Rightarrow> dom_node option"
  effect_cleanup :: "nat list option"
  phase :: phase
  theme :: "js_string option"
  io_registry :: "io_observer list"
  scroll_log :: "dom_node list"

text \<open>Observer \<open>i\<close> exists and the browser still reports to it.\<close>

definition observer_live :: "page_state \<Rightarrow> nat \<Rightarrow> bool" where
  "observer_live s i \<longleftrightarrow> i < length (io_registry s) \<and> obs_connected (io_registry s ! i)"

end
