(* ===== verification/Navigation.thy ===== *)
theory Navigation
  imports Page_State
begin

text \<open>
  Navigation of \<open>src/app/page.tsx\<close>: the handler \<open>scrollToSection\<close> (lines
  87--93), the click handlers of the desktop and mobile links (lines 123--126 and
  177--180), the menu button (line 151) and the theme button (line 140).  It also
  holds the parts of the header that depend on state: the desktop links with their
  highlight (lines 113--134), the mobile menu (lines 158--188) and the two button
  icons (lines 147 and 152).  \<open>scrollIntoView\<close> is the browser's; the model
  records each request in the scroll log.
\<close>

subsection \<open>Handlers\<close>

definition scrollIntoView :: "dom_node \<Rightarrow> page_state \<Rightarrow> page_state" where
  "scrollIntoView node s = s\<lparr>scroll_log := scroll_log s @ [node]\<rparr>"

text \<open>
  \<open>sectionRefs[sectionId].current\<close> throws a \<open>TypeError\<close> when the property is
  \<open>undefined\<close>; the menu has been closed before.  An inherited property has no
  \<open>current\<close>, which reads as \<open>undefined\<close>, so no scroll happens.
\<close>

definition scrollToSection :: "js_string \<Rightarrow> page_state \<Rightarrow> page_state outcome" where
  "scrollToSection sectionId s =
     (let s1 = s\<lparr>mobileMenuOpen := False\<rparr> in
      case sectionRefs_get sectionId of
        Undefined \<Rightarrow>
          Threw (TypeError ''Cannot read properties of undefined (reading current)'') s1
      | InheritedProp \<Rightarrow> Returned s1
      | OwnRef sec \<Rightarrow>
          (case refs s1 sec of
             None \<Rightarrow> Returned s1
           | Some node \<Rightarrow> Returned (scrollIntoView node s1)))"

text \<open>A click on the link of a section: \<open>e.preventDefault(); scrollToSection(section)\<close>.\<close>

definition nav_click :: "section_id \<Rightarrow> page_state \<Rightarrow> page_state outcome" where
  "nav_click sec s = scrollToSection (section_name sec) s"

definition toggleMobileMenu :: "page_state \<Rightarrow> page_state" where
  "toggleMobileMenu s = s\<lparr>mobileMenuOpen := \<not> mobileMenuOpen s\<rparr>"

text \<open>\<open>setTheme(theme === "dark" ? "light" : "dark")\<close> on the \<open>next-themes\<close> store.\<close>

definition toggleTheme :: "page_state \<Rightarrow> page_state" where
  "toggleTheme s = s\<lparr>theme := Some (if theme s = Some ''dark'' then ''light'' else ''dark'')\<rparr>"

subsection \<open>The header as rendered\<close>

text \<open>What a link shows and does, in both copies of the link list: its key, its
  \<open>href\<close>, whether it is highlighted, and its label.  Each copy extends it with its
  own styling.\<close>

record nav_link =
  link_key :: js_string
  link_href :: js_string
  link_active :: bool
  link_label :: js_string

record desktop_link = nav_link +
  desktop_class :: js_string
  desktop_delay_ds :: nat

record mobile_link = nav_link +
  mobile_class :: js_string

text \<open>The reference link of a section, that both copies are meant to render.\<close>

definition nav_link_of :: "page_state \<Rightarrow> section_id \<Rightarrow> nav_link" where
  "nav_link_of s sec =
     \<lparr>link_key = section_name sec,
      link_href = ''#'' @ section_name sec,
      link_active = (activeSection s = section_name sec),
      link_label = section_label sec\<rparr>"

text \<open>The \<open><motion.a>\<close> of lines 117--132.  Its animation delay is
  \<open>0.1 * index\<close> seconds, kept as \<open>index\<close> tenths; \<open>index\<close> counts the keys of
  \<open>sectionRefs\<close>, \<open>hero\<close> included.\<close>

definition desktop_link_of :: "page_state \<Rightarrow> nat \<Rightarrow> section_id \<Rightarrow> desktop_link" where
  "desktop_link_of s index sec =
     \<lparr>link_key = section_name sec,
      link_href = ''#'' @ section_name sec,
      link_active = (activeSection s = section_name sec),
      link_label = capitalize (section_name sec),
      desktop_class = ''text-sm font-medium transition-colors '' @
        (if activeSection s = section_name sec then ''text-rose-500'' else ''hover:text-rose-500''),
      desktop_delay_ds = index\<rparr>"

text \<open>The \<open><a>\<close> of lines 171--183.\<close>

definition mobile_link_of :: "page_state \<Rightarrow> section_id \<Rightarrow> mobile_link" where
  "mobile_link_of s sec =
     \<lparr>link_key = section_name sec,
      link_href = ''#'' @ section_name sec,
      link_active = (activeSection s = section_name sec),
      link_label = capitalize (section_name sec),
      mobile_class = ''text-sm font-medium py-2 '' @
        (if activeSection s = section_name sec then ''text-rose-500'' else ''hover:text-rose-500'')\<rparr>"

text \<open>\<open>section !== "hero" && <... />\<close> for one key; \<open>None\<close> is the \<open>false\<close>
  child that React does not render.\<close>

definition desktop_child :: "page_state \<Rightarrow> nat \<times> section_id \<Rightarrow> desktop_link option" where
  "desktop_child s ix =
     (let (index, sec) = ix in
      if section_name sec \<noteq> ''hero'' then Some (desktop_link_of s index sec) else None)"

definition mobile_child :: "page_state \<Rightarrow> section_id \<Rightarrow> mobile_link option" where
  "mobile_child s sec = (if section_name sec \<noteq> ''hero'' then Some (mobile_link_of s sec) else None)"

definition react_children :: "'a option list \<Rightarrow> 'a list" where
  "react_children xs = List.map_filter id xs"

text \<open>\<open>Object.keys(sectionRefs).map((section, index) => ...)\<close> in the desktop \<open><nav>\<close>.\<close>

definition desktop_nav :: "page_state \<Rightarrow> desktop_link list" where
  "desktop_nav s = react_children (map (desktop_child s) (enumerate 0 sectionRefs_keys))"

text \<open>\<open>{mobileMenuOpen && (... Object.keys(sectionRefs).map((section) => ...) ...)}\<close>:
  the mobile menu, a second copy of the link list.\<close>

definition mobile_menu :: "page_state \<Rightarrow> mobile_link list option" where
  "mobile_menu s =
     (if mobileMenuOpen s then Some (react_children (map (mobile_child s) sectionRefs_keys)) else None)"

datatype icon = Sun | Moon | MenuIcon | XIcon

definition theme_icon :: "page_state \<Rightarrow> icon" where
  "theme_icon s = (if theme s = Some ''dark'' then Sun else Moon)"

definition menu_icon :: "page_state \<Rightarrow> icon" where
  "menu_icon s = (if mobileMenuOpen s then XIcon else MenuIcon)"

subsection \<open>Properties of navigation\<close>

lemma desktop_nav_eq [page_simps]:
  "desktop_nav s =
     [desktop_link_of s 1 About, desktop_link_of s 2 Experience, desktop_link_of s 3 Education,
      desktop_link_of s 4 Skills, desktop_link_of s 5 Contact]"
  by (simp add: desktop_nav_def react_children_def desktop_child_def sectionRefs_keys_def
      List.map_filter_simps eval_nat_numeral)

lemma mobile_menu_eq [page_simps]:
  "mobile_menu s =
     (if mobileMenuOpen s
      then Some [mobile_link_of s About, mobile_link_of s Experience, mobile_link_of s Education,
                 mobile_link_of s Skills, mobile_link_of s Contact]
      else None)"
  by (simp add: mobile_menu_def react_children_def mobile_child_def sectionRefs_keys_def
      List.map_filter_simps)

lemma desktop_links_reference: "map nav_link.truncate (desktop_nav s) = map (nav_link_of s) nav_sections"
  by (simp add: desktop_nav_eq desktop_link_of_def nav_link_of_def nav_link.truncate_def nav_sections_eq
      section_label_def)

lemma mobile_links_reference:
  "map_option (map nav_link.truncate) (mobile_menu s) =
     (if mobileMenuOpen s then Some (map (nav_link_of s) nav_sections) else None)"
  by (simp add: mobile_menu_eq mobile_link_of_def nav_link_of_def nav_link.truncate_def nav_sections_eq
      section_label_def)

text \<open>C20. The two copies of the link list agree: while the menu is open, the
  mobile menu shows the desktop links with the same keys, targets, highlight and
  labels, in the same order (only their styling and animation differ); while it is
  closed, it is not rendered.\<close>

theorem mobile_menu_eq_desktop:
  "map_option (map nav_link.truncate) (mobile_menu s) =
     (if mobileMenuOpen s then Some (map nav_link.truncate (desktop_nav s)) else None)"
  by (simp add: mobile_links_reference desktop_links_reference)

text \<open>The desktop links fade in 0.1\,s apart, from 0.1\,s: \<open>index\<close> still counts
  the \<open>hero\<close> key that renders no link.\<close>

lemma desktop_nav_delays: "map desktop_delay_ds (desktop_nav s) = [1, 2, 3, 4, 5]"
  by (simp add: desktop_nav_eq desktop_link_of_def)

text \<open>Called with the key of a section, \<open>scrollToSection\<close> returns normally.\<close>

lemma scrollToSection_section_name [page_simps]:
  "scrollToSection (section_name sec) s =
     Returned (s\<lparr>mobileMenuOpen := False,
                 scroll_log := scroll_log s @ (case refs s sec of None \<Rightarrow> [] | Some node \<Rightarrow> [node])\<rparr>)"
  by (simp add: scrollToSection_def Let_def scrollIntoView_def split: option.splits)

lemma scrollToSection_Undefined:
  "sectionRefs_get k = Undefined \<Longrightarrow>
   scrollToSection k s = Threw (TypeError ''Cannot read properties of undefined (reading current)'')
     (s\<lparr>mobileMenuOpen := False\<rparr>)"
  by (simp add: scrollToSection_def)

text \<open>C8. Called with a string that is neither a section key nor a name inherited
  from \<open>Object.prototype\<close>, \<open>scrollToSection\<close> throws a \<open>TypeError\<close>.  It has
  already closed the mobile menu, and it changes nothing else.\<close>

theorem scrollToSection_unknown_throws:
  assumes "k \<notin> range section_name" and "k \<notin> set object_prototype_props"
  shows "scrollToSection k s =
    Threw (TypeError ''Cannot read properties of undefined (reading current)'') (s\<lparr>mobileMenuOpen := False\<rparr>)"
  using assms by (simp add: scrollToSection_Undefined sectionRefs_get_unknown)

text \<open>C9. Called with a name inherited from \<open>Object.prototype\<close>, such as
  \<open>"toString"\<close>, \<open>scrollToSection\<close> returns normally.  It closes the menu and
  does not scroll.\<close>

theorem scrollToSection_inherited_noop:
  assumes "k \<in> set object_prototype_props"
  shows "scrollToSection k s = Returned (s\<lparr>mobileMenuOpen := False\<rparr>)"
  using assms by (simp add: scrollToSection_def sectionRefs_get_inherited)

text \<open>C10. Whatever its argument, \<open>scrollToSection\<close> never writes
  \<open>activeSection\<close>, and it always leaves the mobile menu closed and unrendered.\<close>

theorem scrollToSection_frame:
  "activeSection (outcome_state (scrollToSection k s)) = activeSection s \<and>
   \<not> mobileMenuOpen (outcome_state (scrollToSection k s)) \<and>
   mobile_menu (outcome_state (scrollToSection k s)) = None"
  by (auto simp: scrollToSection_def Let_def scrollIntoView_def mobile_menu_eq
      split: ref_lookup.splits option.splits)

text \<open>C7. A click on the link of a section never throws: it closes the mobile menu
  and requests a smooth scroll to that section's element when its ref holds one,
  and it changes nothing else.\<close>

theorem nav_click_scrolls:
  "nav_click sec s =
     Returned (s\<lparr>mobileMenuOpen := False,
                 scroll_log := scroll_log s @ (case refs s sec of None \<Rightarrow> [] | Some node \<Rightarrow> [node])\<rparr>)"
  by (simp add: nav_click_def scrollToSection_section_name)

text \<open>C13. From \<open>"light"\<close> or \<open>"dark"\<close>, one press of the theme button
  switches to the other of the two, and a second press restores the whole state.\<close>

theorem toggleTheme_involutive:
  "theme s \<in> {Some ''light'', Some ''dark''} \<Longrightarrow>
   theme (toggleTheme s) \<in> {Some ''light'', Some ''dark''} \<and> theme (toggleTheme s) \<noteq> theme s \<and>
   toggleTheme (toggleTheme s) = s"
  by (auto simp: toggleTheme_def)

text \<open>C14. From any other value of the store (\<open>"system"\<close>, or \<open>undefined\<close>
  before the store has resolved), the first press selects \<open>"dark"\<close> and the second
  \<open>"light"\<close>, whatever the system's resolved colour scheme is.\<close>

theorem toggleTheme_other_goes_dark:
  "theme s \<notin> {Some ''light'', Some ''dark''} \<Longrightarrow>
   theme (toggleTheme s) = Some ''dark'' \<and> theme (toggleTheme (toggleTheme s)) = Some ''light''"
  by (auto simp: toggleTheme_def)

text \<open>C12. At most one desktop link is highlighted: exactly one when
  \<open>activeSection\<close> is the key of a linked section, and none otherwise (in
  particular when it is \<open>"hero"\<close>).\<close>

theorem nav_active_at_most_one:
  "length (filter link_active (desktop_nav s)) =
     (if activeSection s \<in> section_name ` set nav_sections then 1 else 0)"
  by (auto simp: desktop_nav_eq nav_sections_eq desktop_link_of_def)

subsection \<open>Witnesses\<close>

theorem scrollToSection_unknown_throws_witness:
  "''blog'' \<notin> range section_name \<and> ''blog'' \<notin> set object_prototype_props \<and>
   scrollToSection ''blog'' \<lparr>mounted = True, mobileMenuOpen = True, activeSection = ''hero'',
       refs = (\<lambda>sec. Some (SectionNode sec)), effect_cleanup = Some [], phase = Live,
       theme = None, io_registry = [], scroll_log = []\<rparr> =
   Threw (TypeError ''Cannot read properties of undefined (reading current)'')
     \<lparr>mounted = True, mobileMenuOpen = False, activeSection = ''hero'',
       refs = (\<lambda>sec. Some (SectionNode sec)), effect_cleanup = Some [], phase = Live,
       theme = None, io_registry = [], scroll_log = []\<rparr>"
proof -
  have n: "''blog'' \<notin> range section_name"
  proof
    assume "''blog'' \<in> range section_name"
    then obtain sec where "''blog'' = section_name sec" by blast
    then show False by (cases sec) simp_all
  qed
  have p: "''blog'' \<notin> set object_prototype_props"
    by (simp add: object_prototype_props_def)
  show ?thesis
    using n p scrollToSection_unknown_throws [OF n p] by simp
qed

theorem scrollToSection_inherited_noop_witness:
  "''toString'' \<in> set object_prototype_props \<and>
   scrollToSection ''toString'' \<lparr>mounted = True, mobileMenuOpen = True, activeSection = ''hero'',
       refs = (\<lambda>sec. Some (SectionNode sec)), effect_cleanup = Some [], phase = Live,
       theme = None, io_registry = [], scroll_log = []\<rparr> =
   Returned \<lparr>mounted = True, mobileMenuOpen = False, activeSection = ''hero'',
       refs = (\<lambda>sec. Some (SectionNode sec)), effect_cleanup = Some [], phase = Live,
       theme = None, io_registry = [], scroll_log = []\<rparr>"
proof -
  have p: "''toString'' \<in> set object_prototype_props"
    by (simp add: object_prototype_props_def)
  show ?thesis
    using p scrollToSection_inherited_noop [OF p] by simp
qed

theorem toggleTheme_involutive_witness:
  "theme \<lparr>mounted = True, mobileMenuOpen = False, activeSection = ''hero'',
       refs = (\<lambda>sec. None), effect_cleanup = Some [], phase = Live,
       theme = Some ''dark'', io_registry = [], scroll_log = []\<rparr> \<in> {Some ''light'', Some ''dark''} \<and>
   theme (toggleTheme \<lparr>mounted = True, mobileMenuOpen = False, activeSection = ''hero'',
       refs = (\<lambda>sec. None), effect_cleanup = Some [], phase = Live,
       theme = Some ''dark'', io_registry = [], scroll_log = []\<rparr>) \<in> {Some ''light'', Some ''dark''} \<and>
   theme (toggleTheme \<lparr>mounted = True, mobileMenuOpen = False, activeSection = ''hero'',
       refs = (\<lambda>sec. None), effect_cleanup = Some [], phase = Live,
       theme = Some ''dark'', io_registry = [], scroll_log = []\<rparr>) \<noteq> theme \<lparr>mounted = True, mobileMenuOpen = False, activeSection = ''hero'',
       refs = (\<lambda>sec. None), effect_cleanup = Some [], phase = Live,
       theme = Some ''dark'', io_registry = [], scroll_log = []\<rparr> \<and>
   toggleTheme (toggleTheme \<lparr>mounted = True, mobileMenuOpen = False, activeSection = ''hero'',
       refs = (\<lambda>sec. None), effect_cleanup = Some [], phase = Live,
       theme = Some ''dark'', io_registry = [], scroll_log = []\<rparr>) =
   \<lparr>mounted = True, mobileMenuOpen = False, activeSection = ''hero'',
       refs = (\<lambda>sec. None), effect_cleanup = Some [], phase = Live,
       theme = Some ''dark'', io_registry = [], scroll_log = []\<rparr>"
proof -
  have h: "theme \<lparr>mounted = True, mobileMenuOpen = False, activeSection = ''hero'',
       refs = (\<lambda>sec. None), effect_cleanup = Some [], phase = Live,
       theme = Some ''dark'', io_registry = [], scroll_log = []\<rparr> \<in> {Some ''light'', Some ''dark''}"
    by simp
  show ?thesis
    using h toggleTheme_involutive [OF h] by blast
qed

theorem toggleTheme_other_goes_dark_witness:
  "theme \<lparr>mounted = True, mobileMenuOpen = False, activeSection = ''hero'',
       refs = (\<lambda>sec. None), effect_cleanup = Some [], phase = Live,
       theme = Some ''system'', io_registry = [], scroll_log = []\<rparr> \<notin> {Some ''light'', Some ''dark''} \<and>
   theme (toggleTheme \<lparr>mounted = True, mobileMenuOpen = False, activeSection = ''hero'',
       refs = (\<lambda>sec. None), effect_cleanup = Some [], phase = Live,
       theme = Some ''system'', io_registry = [], scroll_log = []\<rparr>) = Some ''dark''"
  using toggleTheme_other_goes_dark
    [of "\<lparr>mounted = True, mobileMenuOpen = False, activeSection = ''hero'',
       refs = (\<lambda>sec. None), effect_cleanup = Some [], phase = Live,
       theme = Some ''system'', io_registry = [], scroll_log = []\<rparr>"]
  by simp

end
