(* ===== verification/Content.thy ===== *)
theory Content
  imports Sections
begin

text \<open>
  The sections of \<open>src/app/page.tsx\<close> as rendered content: the six
  \<open><section>\<close> elements (lines 191--774) with their refs, \<open>id\<close> attributes and
  headings, and the data each section maps over.  The data are the hero badges, the
  jobs with their duties, the education modules, the skill and language bars in
  their tabs, and the contact items.  Each list is rendered by a
  \<open>.map((x, index) => ...)\<close> whose React key is either the item itself (the
  badges) or its index.  The external links open in a new tab.
\<close>

subsection \<open>The section elements\<close>

record section_elem =
  sec_ref :: section_id
  sec_dom_id :: "js_string option"
  sec_heading :: js_string

text \<open>Each \<open><section>\<close> element with its ref, its \<open>id\<close> and its heading.\<close>

definition hero_section :: section_elem where
  "hero_section = \<lparr>sec_ref = Hero, sec_dom_id = None, sec_heading = ''Sabina Maharjan''\<rparr>"

definition about_section :: section_elem where
  "about_section = \<lparr>sec_ref = About, sec_dom_id = Some ''about'', sec_heading = ''About Me''\<rparr>"

definition experience_section :: section_elem where
  "experience_section =
     \<lparr>sec_ref = Experience, sec_dom_id = Some ''experience'', sec_heading = ''Work Experience''\<rparr>"

definition education_section :: section_elem where
  "education_section = \<lparr>sec_ref = Education, sec_dom_id = Some ''education'', sec_heading = ''Education''\<rparr>"

definition skills_section :: section_elem where
  "skills_section = \<lparr>sec_ref = Skills, sec_dom_id = Some ''skills'', sec_heading = ''Skills & Expertise''\<rparr>"

definition contact_section :: section_elem where
  "contact_section = \<lparr>sec_ref = Contact, sec_dom_id = Some ''contact'', sec_heading = ''Get In Touch''\<rparr>"

text \<open>The six sections in document order.\<close>

definition page_sections :: "section_elem list" where
  "page_sections =
     [hero_section, about_section, experience_section, education_section, skills_section, contact_section]"

subsection \<open>Rendered nodes\<close>

text \<open>An anchor element: its \<open>href\<close>, \<open>target\<close>, \<open>rel\<close> and text.\<close>

record anchor =
  a_href :: js_string
  a_target :: "js_string option"
  a_rel :: "js_string option"
  a_text :: js_string

datatype content_node = TextNode js_string | AnchorNode anchor

text \<open>A list rendered with React keys: the key of each child and the child.\<close>

type_synonym ('k, 'a) keyed_list = "('k \<times> 'a) list"

definition keyed_by_index :: "'a list \<Rightarrow> (nat, 'a) keyed_list" where
  "keyed_by_index xs = zip [0..<length xs] xs"

subsection \<open>Hero\<close>

definition hero_badges :: "js_string list" where
  "hero_badges =
     [''Administrative Support'', ''HR Administration'', ''Office Management'',
      ''Communication'', ''Problem Solving'']"

text \<open>\<open>.map((skill) => <motion.div key={skill}> <Badge>{skill}</Badge>)\<close>.\<close>

definition hero_badge_view :: "(js_string, js_string) keyed_list" where
  "hero_badge_view = map (\<lambda>skill. (skill, skill)) hero_badges"

definition hero_contact_link :: anchor where
  "hero_contact_link =
     \<lparr>a_href = ''https://www.linkedin.com/in/sabina-maharjan-602b20239/'',
      a_target = Some ''_blank'', a_rel = Some ''noopener noreferrer'', a_text = ''Contact Me''\<rparr>"

subsection \<open>Experience\<close>

record job =
  job_title :: js_string
  job_period :: js_string
  job_company :: js_string
  job_duties :: "js_string list"

definition experience_jobs :: "job list" where
  "experience_jobs =
     [\<lparr>job_title = ''Office Admin'', job_period = ''Dec 2024 - Present'',
       job_company = ''Aayulogic Pvt Ltd, Chakupat, Lalitpur'',
       job_duties =
         [''Providing comprehensive administrative support to ensure efficient office operations'',
          ''Managing office communications including phone calls, emails, and visitor reception'',
          ''Coordinating meetings, appointments, and maintaining executive calendars'',
          ''Handling document management, filing systems, and record keeping'',
          ''Supporting HR functions and administrative processes'',
          ''Assisting with office logistics, supplies, and equipment maintenance'',
          ''Facilitating internal and external communication between teams and departments'']\<rparr>,
      \<lparr>job_title = ''Admin Assistant'', job_period = ''Oct 2021 - Dec 2024'',
       job_company = ''Luniva Tech Pvt. Ltd., Kupondole'',
       job_duties =
         [''Provided administrative/HR support to ensure efficient operation of the office'',
          ''Answered phone calls, scheduled meetings and supported visitors'',
          ''Carried out administrative duties such as filing, typing, copying, binding, scanning etc.'',
          ''Assisted with day-to-day operations of the HR functions and duties'',
          ''Maintained records of employees (hard and soft copies)'',
          ''Provided clerical and administrative support to executives'',
          ''Dealt with employee requests regarding human resources issues, rules, and regulations'',
          ''Coordinated communication with candidates and scheduled interviews'',
          ''Assisted with the recruitment process by identifying candidates, performing reference checks, and issuing employment contracts'']\<rparr>]"

text \<open>Each job keyed by its index, with its title, period badge, company and its
  duties keyed by their index (lines 424--474).\<close>

definition experience_view ::
  "(nat, js_string \<times> js_string \<times> js_string \<times> (nat, js_string) keyed_list) keyed_list" where
  "experience_view =
     map (\<lambda>(i, j). (i, job_title j, job_period j, job_company j, keyed_by_index (job_duties j)))
       (keyed_by_index experience_jobs)"

subsection \<open>Education\<close>

definition education_modules :: "js_string list list" where
  "education_modules =
     [[''Manage own performance in a business environment'', ''Work responsibilities'',
       ''Events, meetings and activities'', ''Support sustainability in a business environment''],
      [''Manage information and data'', ''Leadership and management'',
       ''Handling problems and operational issues'']]"

definition education_view :: "(nat, js_string) keyed_list list" where
  "education_view = map keyed_by_index education_modules"

subsection \<open>Skills\<close>

record skill_bar =
  bar_title :: js_string
  bar_desc :: js_string
  bar_value :: nat

definition professional_skills :: "skill_bar list" where
  "professional_skills =
     [\<lparr>bar_title = ''Communication'', bar_desc = ''Written and verbal communication skills'', bar_value = 95\<rparr>,
      \<lparr>bar_title = ''Problem Solving'', bar_desc = ''Analytical thinking and solutions'', bar_value = 90\<rparr>,
      \<lparr>bar_title = ''Client Handling'', bar_desc = ''Customer service and relationship management'', bar_value = 85\<rparr>,
      \<lparr>bar_title = ''Office Management'', bar_desc = ''Organizing and maintaining office operations'', bar_value = 95\<rparr>,
      \<lparr>bar_title = ''Microsoft Office 360'', bar_desc = ''Word, Excel, PowerPoint, Outlook'', bar_value = 90\<rparr>,
      \<lparr>bar_title = ''Administrative Support'', bar_desc = ''Filing, documentation, and record keeping'', bar_value = 95\<rparr>,
      \<lparr>bar_title = ''HR Administration'', bar_desc = ''Employee records and recruitment support'', bar_value = 85\<rparr>,
      \<lparr>bar_title = ''Meeting Coordination'', bar_desc = ''Scheduling and organizing meetings'', bar_value = 90\<rparr>]"

definition language_skills :: "skill_bar list" where
  "language_skills =
     [\<lparr>bar_title = ''Nepali'', bar_desc = ''Native proficiency'', bar_value = 100\<rparr>,
      \<lparr>bar_title = ''English'', bar_desc = ''Professional working proficiency'', bar_value = 85\<rparr>,
      \<lparr>bar_title = ''Hindi'', bar_desc = ''Professional working proficiency'', bar_value = 80\<rparr>,
      \<lparr>bar_title = ''Newari'', bar_desc = ''Professional working proficiency'', bar_value = 80\<rparr>]"

text \<open>A bar's card: its key, title, description and the width of its filled part,
  \<open>width: `${skill.value}%`\<close>, as a percentage of the card.\<close>

definition bar_view :: "skill_bar list \<Rightarrow> (nat, js_string \<times> js_string \<times> nat) keyed_list" where
  "bar_view bars = map (\<lambda>(i, b). (i, bar_title b, bar_desc b, bar_value b)) (keyed_by_index bars)"

record tab_panel =
  panel_value :: js_string
  panel_bars :: "skill_bar list"

record tabs_config =
  tabs_default :: js_string
  tabs_triggers :: "(js_string \<times> js_string) list"
  tabs_panels :: "tab_panel list"

definition skills_tabs :: tabs_config where
  "skills_tabs =
     \<lparr>tabs_default = ''professional-skills'',
      tabs_triggers = [(''professional-skills'', ''Professional Skills''), (''languages'', ''Languages'')],
      tabs_panels =
        [\<lparr>panel_value = ''professional-skills'', panel_bars = professional_skills\<rparr>,
         \<lparr>panel_value = ''languages'', panel_bars = language_skills\<rparr>]\<rparr>"

subsection \<open>Contact\<close>

record contact_item =
  contact_label :: js_string
  contact_value :: js_string
  contact_link :: "js_string option"

definition contact_items :: "contact_item list" where
  "contact_items =
     [\<lparr>contact_label = ''Email'', contact_value = ''maharjansabina909@gmail.com'', contact_link = None\<rparr>,
      \<lparr>contact_label = ''Phone'', contact_value = ''+977 9808715629'', contact_link = None\<rparr>,
      \<lparr>contact_label = ''Location'', contact_value = ''Sanepa, Lalitpur, Nepal'', contact_link = None\<rparr>,
      \<lparr>contact_label = ''LinkedIn'', contact_value = ''Sabina Maharjan'',
       contact_link = Some ''https://www.linkedin.com/in/sabina-maharjan-602b20239/''\<rparr>]"

text \<open>\<open>contact.link ? <a href target="_blank" rel=...>{value}</a> : <div>{value}</div>\<close>:
  an absent link and the empty string are both falsy in JavaScript.\<close>

definition contact_item_view :: "contact_item \<Rightarrow> content_node" where
  "contact_item_view c =
     (case contact_link c of
        None \<Rightarrow> TextNode (contact_value c)
      | Some url \<Rightarrow>
          if url = [] then TextNode (contact_value c)
          else AnchorNode \<lparr>a_href = url, a_target = Some ''_blank'',
                           a_rel = Some ''noopener noreferrer'', a_text = contact_value c\<rparr>)"

definition contact_view :: "(nat, js_string \<times> content_node) keyed_list" where
  "contact_view =
     map (\<lambda>(i, c). (i, contact_label c, contact_item_view c)) (keyed_by_index contact_items)"

definition connect_link :: anchor where
  "connect_link =
     \<lparr>a_href = ''https://www.linkedin.com/in/sabina-maharjan-602b20239/'',
      a_target = Some ''_blank'', a_rel = Some ''noopener noreferrer'', a_text = ''Connect with Me''\<rparr>"

subsection \<open>Anchors that open a new tab\<close>

text \<open>The browser reads \<open>rel\<close> as a list of space-separated tokens.\<close>

fun rel_tokens_aux :: "js_string \<Rightarrow> js_string \<Rightarrow> js_string list" where
  "rel_tokens_aux acc [] = (if acc = [] then [] else [rev acc])"
| "rel_tokens_aux acc (c # cs) =
     (if c = CHR '' '' then (if acc = [] then rel_tokens_aux [] cs else rev acc # rel_tokens_aux [] cs)
      else rel_tokens_aux (c # acc) cs)"

definition rel_tokens :: "js_string option \<Rightarrow> js_string list" where
  "rel_tokens r = (case r of None \<Rightarrow> [] | Some s \<Rightarrow> rel_tokens_aux [] s)"

text \<open>A \<open>target="_blank"\<close> anchor without \<open>noopener\<close> hands the opened page a
  handle on this one (\<open>window.opener\<close>).\<close>

definition opener_safe :: "anchor \<Rightarrow> bool" where
  "opener_safe a =
     (if a_target a = Some ''_blank'' then ''noopener'' \<in> set (rel_tokens (a_rel a)) else True)"

subsection \<open>Properties of the content\<close>

lemma page_sections_refs [simp]: "map sec_ref page_sections = sectionRefs_keys"
  by (simp add: page_sections_def sectionRefs_keys_def hero_section_def about_section_def
      experience_section_def education_section_def skills_section_def contact_section_def)

lemma keyed_by_index_keys [simp]: "map fst (keyed_by_index xs) = [0..<length xs]"
  by (simp add: keyed_by_index_def)

lemma keyed_by_index_distinct: "distinct (map fst (keyed_by_index xs))"
  by simp

lemma rel_tokens_noopener_noreferrer [simp]:
  "rel_tokens (Some ''noopener noreferrer'') = [''noopener'', ''noreferrer'']"
  by (simp add: rel_tokens_def)

lemma contact_item_view_anchor:
  "contact_item_view c = AnchorNode a \<Longrightarrow>
   a_target a = Some ''_blank'' \<and> a_rel a = Some ''noopener noreferrer'' \<and>
   contact_link c = Some (a_href a) \<and> a_href a \<noteq> []"
  by (auto simp: contact_item_view_def split: option.splits if_splits)

text \<open>C16. Any contact item the page renders as a link is rendered as a new-tab
  anchor with \<open>noopener\<close>, pointing at the item's own link.\<close>

theorem contact_anchor_opener_safe:
  "contact_item_view c = AnchorNode a \<Longrightarrow> opener_safe a \<and> contact_link c = Some (a_href a)"
  using contact_item_view_anchor [of c a] by (simp add: opener_safe_def)

theorem contact_anchor_opener_safe_witness:
  "contact_item_view (contact_items ! 3) =
     AnchorNode \<lparr>a_href = ''https://www.linkedin.com/in/sabina-maharjan-602b20239/'',
       a_target = Some ''_blank'', a_rel = Some ''noopener noreferrer'', a_text = ''Sabina Maharjan''\<rparr> \<and>
   opener_safe \<lparr>a_href = ''https://www.linkedin.com/in/sabina-maharjan-602b20239/'',
       a_target = Some ''_blank'', a_rel = Some ''noopener noreferrer'', a_text = ''Sabina Maharjan''\<rparr>"
proof -
  have v: "contact_item_view (contact_items ! 3) =
     AnchorNode \<lparr>a_href = ''https://www.linkedin.com/in/sabina-maharjan-602b20239/'',
       a_target = Some ''_blank'', a_rel = Some ''noopener noreferrer'', a_text = ''Sabina Maharjan''\<rparr>"
    by (simp add: contact_items_def contact_item_view_def)
  show ?thesis
    using v contact_anchor_opener_safe [OF v] by blast
qed

end
