(* ===== verification/Render.thy ===== *)
theory Render
  imports Navigation Content
begin

text \<open>
  The component's render function and React's commit of its refs.  While
  \<open>mounted\<close> is false, \<open>Portfolio\<close> returns \<open>null\<close> (lines 95--97).  Otherwise
  it returns the header and the six sections (lines 99--790).  On commit, React
  sets the \<open>current\<close> field of each ref to the element that carries it in the
  rendered tree, and to \<open>null\<close> when that element is not rendered.
\<close>

record page_view =
  pv_nav :: "desktop_link list"
  pv_theme_icon :: icon
  pv_menu_icon :: icon
  pv_mobile_menu :: "mobile_link list option"
  pv_sections :: "section_elem list"

definition render :: "page_state \<Rightarrow> page_view option" where
  "render s =
     (if \<not> mounted s then None
      else Some \<lparr>pv_nav = desktop_nav s, pv_theme_icon = theme_icon s,
                 pv_menu_icon = menu_icon s, pv_mobile_menu = mobile_menu s,
                 pv_sections = page_sections\<rparr>)"

definition attached_refs :: "page_view option \<Rightarrow> section_id \<Rightarrow> dom_node option" where
  "attached_refs v sec =
     (case v of
        None \<Rightarrow> None
      | Some pv \<Rightarrow> if sec \<in> set (map sec_ref (pv_sections pv)) then Some (SectionNode sec) else None)"

definition commit :: "page_state \<Rightarrow> page_state" where
  "commit s = s\<lparr>refs := attached_refs (render s)\<rparr>"

lemma commit_refs [page_simps]:
  "refs (commit s) = (if mounted s then (\<lambda>sec. Some (SectionNode sec)) else (\<lambda>_. None))"
  by (auto simp: commit_def render_def attached_refs_def)

lemma commit_other [frame_simps]:
  "mounted (commit s) = mounted s" "mobileMenuOpen (commit s) = mobileMenuOpen s"
  "activeSection (commit s) = activeSection s" "effect_cleanup (commit s) = effect_cleanup s"
  "phase (commit s) = phase s" "theme (commit s) = theme s"
  "io_registry (commit s) = io_registry s" "scroll_log (commit s) = scroll_log s"
  by (simp_all add: commit_def)

end
