(* ===== verification/Tracker.thy ===== *)
theory Tracker
  imports Page_State
begin

text \<open>
  The active-section tracker: the \<open>useEffect\<close> of \<open>src/app/page.tsx\<close> (lines
  57--84).  The effect sets \<open>mounted\<close>.  Then, for every entry of \<open>sectionRefs\<close>
  whose ref holds an element, it creates an \<open>IntersectionObserver\<close> whose callback
  sets \<open>activeSection\<close> to that entry's key, and observes the element.  It
  returns a cleanup that disconnects every observer it created.  The browser side
  is modelled as well: the observer constructor, \<open>observe\<close>, \<open>disconnect\<close>, and
  the delivery of a batch of entries to a connected observer.
\<close>

subsection \<open>Browser operations\<close>

definition observerOptions :: io_options where
  "observerOptions = \<lparr>io_threshold_pct = 20, io_rootMargin = ''-20% 0px -20% 0px''\<rparr>"

text \<open>\<open>new IntersectionObserver(callback, options)\<close>: a connected observer with no
  target yet, identified by its position in the registry.\<close>

definition new_IntersectionObserver ::
  "section_id \<Rightarrow> io_options \<Rightarrow> page_state \<Rightarrow> page_state \<times> nat" where
  "new_IntersectionObserver sec opts s =
     (s\<lparr>io_registry := io_registry s @
          [\<lparr>obs_section = sec, obs_options = opts, obs_targets = [], obs_connected = True\<rparr>]\<rparr>,
      length (io_registry s))"

definition observe :: "nat \<Rightarrow> dom_node \<Rightarrow> page_state \<Rightarrow> page_state" where
  "observe i node s =
     s\<lparr>io_registry := (io_registry s)[i :=
        (io_registry s ! i)\<lparr>obs_targets := obs_targets (io_registry s ! i) @ [node]\<rparr>]\<rparr>"

definition disconnect :: "io_observer \<Rightarrow> io_observer" where
  "disconnect obs = obs\<lparr>obs_connected := False, obs_targets := []\<rparr>"

subsection \<open>The effect\<close>

text \<open>The \<open>Object.entries(sectionRefs).forEach\<close> loop of lines 66--79; the
  early \<open>return\<close> of line 67 skips an entry whose ref is still \<open>null\<close>.\<close>

fun attach_observers ::
  "section_id list \<Rightarrow> nat list \<Rightarrow> page_state \<Rightarrow> nat list \<times> page_state" where
  "attach_observers [] observers s = (observers, s)"
| "attach_observers (sec # secs) observers s =
     (case refs s sec of
        None \<Rightarrow> attach_observers secs observers s
      | Some node \<Rightarrow>
          (let (s1, i) = new_IntersectionObserver sec observerOptions s;
               s2 = observe i node s1
           in attach_observers secs (observers @ [i]) s2))"

definition tracker_effect :: "page_state \<Rightarrow> page_state" where
  "tracker_effect s =
     (let s1 = s\<lparr>mounted := True\<rparr>;
          (observers, s2) = attach_observers sectionRefs_keys [] s1
      in s2\<lparr>effect_cleanup := Some observers\<rparr>)"

text \<open>The cleanup returned on line 81: \<open>observers.forEach(o => o.disconnect())\<close>.\<close>

definition tracker_cleanup :: "nat list \<Rightarrow> page_state \<Rightarrow> page_state" where
  "tracker_cleanup observers s =
     s\<lparr>io_registry := fold (\<lambda>i os. os[i := disconnect (os ! i)]) observers (io_registry s)\<rparr>"

text \<open>The observer that the loop creates for a section whose element is rendered.\<close>

definition observing :: "section_id \<Rightarrow> io_observer" where
  "observing sec =
     \<lparr>obs_section = sec, obs_options = observerOptions, obs_targets = [SectionNode sec],
      obs_connected = True\<rparr>"

subsection \<open>The callback and its delivery\<close>

text \<open>The callback of lines 69--75, for the observer created for section \<open>sec\<close>.\<close>

definition observer_callback :: "section_id \<Rightarrow> io_entry list \<Rightarrow> page_state \<Rightarrow> page_state" where
  "observer_callback sec entries s =
     fold (\<lambda>entry s. if isIntersecting entry then s\<lparr>activeSection := section_name sec\<rparr> else s)
       entries s"

text \<open>
  The browser queues a non-empty batch of entries, each about an element the
  observer observes, and runs the callback of a connected observer only.
\<close>

definition io_deliver :: "nat \<Rightarrow> io_entry list \<Rightarrow> page_state \<Rightarrow> page_state" where
  "io_deliver i entries s =
     (if observer_live s i \<and> entries \<noteq> [] \<and>
         (\<forall>e\<in>set entries. entry_target e \<in> set (obs_targets (io_registry s ! i)))
      then observer_callback (obs_section (io_registry s ! i)) entries s
      else s)"

subsection \<open>Properties of the tracker\<close>

lemma attach_observers_unobserved:
  "\<forall>sec\<in>set secs. refs s sec = None \<Longrightarrow> attach_observers secs obs s = (obs, s)"
  by (induction secs arbitrary: obs s) auto

lemma observe_new [simp]:
  "observe (length (io_registry s)) node (fst (new_IntersectionObserver sec opts s)) =
   s\<lparr>io_registry := io_registry s @
      [\<lparr>obs_section = sec, obs_options = opts, obs_targets = [node], obs_connected = True\<rparr>]\<rparr>"
  by (simp add: observe_def new_IntersectionObserver_def)

lemma attach_observers_all:
  "\<forall>sec\<in>set secs. refs s sec = Some (SectionNode sec) \<Longrightarrow>
   attach_observers secs obs s =
     (obs @ [length (io_registry s) ..< length (io_registry s) + length secs],
      s\<lparr>io_registry := io_registry s @ map observing secs\<rparr>)"
proof (induction secs arbitrary: obs s)
  case Nil
  then show ?case by simp
next
  case (Cons sec secs)
  let ?s2 = "s\<lparr>io_registry := io_registry s @ [observing sec]\<rparr>"
  have step: "attach_observers (sec # secs) obs s =
      attach_observers secs (obs @ [length (io_registry s)]) ?s2"
    using Cons.prems
    by (simp add: new_IntersectionObserver_def observe_def observing_def)
  have "\<forall>sec\<in>set secs. refs ?s2 sec = Some (SectionNode sec)"
    using Cons.prems by simp
  then have ih: "attach_observers secs (obs @ [length (io_registry s)]) ?s2 =
      ((obs @ [length (io_registry s)]) @
         [length (io_registry ?s2) ..< length (io_registry ?s2) + length secs],
       ?s2\<lparr>io_registry := io_registry ?s2 @ map observing secs\<rparr>)"
    by (rule Cons.IH)
  have idx: "[length (io_registry s) ..< length (io_registry s) + length (sec # secs)] =
      length (io_registry s) #
        [length (io_registry ?s2) ..< length (io_registry ?s2) + length secs]"
    by (simp add: upt_rec)
  show ?case
    unfolding step ih idx by simp
qed

lemma tracker_effect_unobserved:
  "\<forall>sec. refs s sec = None \<Longrightarrow>
   tracker_effect s = s\<lparr>mounted := True, effect_cleanup := Some []\<rparr>"
  by (simp add: tracker_effect_def attach_observers_unobserved)

text \<open>Run after the sections are rendered, the effect creates one connected
  observer per key of \<open>sectionRefs\<close>, in key order, each observing its own section
  element; it sets \<open>mounted\<close> and keeps the new observers for its cleanup.\<close>

lemma tracker_effect_observes_all:
  assumes "\<forall>sec. refs s sec = Some (SectionNode sec)"
  shows "tracker_effect s =
     s\<lparr>mounted := True,
       io_registry := io_registry s @ map observing sectionRefs_keys,
       effect_cleanup := Some [length (io_registry s) ..< length (io_registry s) + 6]\<rparr>"
proof -
  have "attach_observers sectionRefs_keys [] (s\<lparr>mounted := True\<rparr>) =
      ([length (io_registry s) ..< length (io_registry s) + length sectionRefs_keys],
       s\<lparr>mounted := True, io_registry := io_registry s @ map observing sectionRefs_keys\<rparr>)"
    by (rule attach_observers_all [of sectionRefs_keys "s\<lparr>mounted := True\<rparr>" "[]", simplified])
      (simp add: assms)
  moreover have "length sectionRefs_keys = 6"
    by (simp add: sectionRefs_keys_def)
  ultimately show ?thesis
    by (simp add: tracker_effect_def)
qed

text \<open>The callback sets \<open>activeSection\<close> to its section's key exactly when one
  entry of the batch is intersecting, and leaves the state alone otherwise.\<close>

lemma observer_callback_eq:
  "observer_callback sec es s =
     (if \<exists>e\<in>set es. isIntersecting e then s\<lparr>activeSection := section_name sec\<rparr> else s)"
  unfolding observer_callback_def by (rule fold_guarded_idem) simp

text \<open>C4. Two callbacks that run one after the other (two observers reporting in
  the same frame) resolve by arrival order: the later one wins when it has an
  intersecting entry; otherwise the earlier one's write stands; if neither has an
  intersecting entry, \<open>activeSection\<close> is unchanged.\<close>

theorem observer_callback_last_write:
  "activeSection (observer_callback b es2 (observer_callback a es1 s)) =
     (if \<exists>e\<in>set es2. isIntersecting e then section_name b
      else if \<exists>e\<in>set es1. isIntersecting e then section_name a
      else activeSection s)"
  by (simp add: observer_callback_eq)

lemma observer_live_effect_all:
  assumes "\<forall>sec. refs s sec = Some (SectionNode sec)" and "k < 6"
  shows "io_registry (tracker_effect s) ! (length (io_registry s) + k) = observing (sectionRefs_keys ! k)"
    and "observer_live (tracker_effect s) (length (io_registry s) + k)"
proof -
  have k: "k < length sectionRefs_keys" using assms(2) by (simp add: sectionRefs_keys_def)
  show reg: "io_registry (tracker_effect s) ! (length (io_registry s) + k) = observing (sectionRefs_keys ! k)"
    using assms(1) k by (simp add: tracker_effect_observes_all nth_append)
  show "observer_live (tracker_effect s) (length (io_registry s) + k)"
    using assms(1) k reg by (simp add: observer_live_def tracker_effect_observes_all observing_def)
qed

text \<open>C3. Run after the sections are rendered, the effect makes the tracker work
  for every section: when the browser reports the \<open>k\<close>-th section's element as
  intersecting to the \<open>k\<close>-th observer the effect created, \<open>activeSection\<close>
  becomes that section's key.\<close>

theorem effect_then_intersection_activates:
  assumes refs: "\<forall>sec. refs s sec = Some (SectionNode sec)" and k: "k < 6"
  shows "activeSection
           (io_deliver (length (io_registry s) + k)
              [\<lparr>entry_target = SectionNode (sectionRefs_keys ! k), isIntersecting = True\<rparr>]
              (tracker_effect s)) =
         section_name (sectionRefs_keys ! k)"
  using observer_live_effect_all [OF refs k]
  by (simp add: io_deliver_def observer_callback_eq observing_def)

lemma disconnect_idem [simp]: "disconnect (disconnect obs) = disconnect obs"
  by (simp add: disconnect_def)

lemma tracker_cleanup_registry:
  "j < length (io_registry s) \<Longrightarrow>
   io_registry (tracker_cleanup obs s) ! j =
     (if j \<in> set obs then disconnect (io_registry s ! j) else io_registry s ! j)"
  by (simp add: tracker_cleanup_def nth_fold_update)

lemma length_tracker_cleanup [simp]:
  "length (io_registry (tracker_cleanup obs s)) = length (io_registry s)"
  by (simp add: tracker_cleanup_def)

lemma obs_connected_disconnect [simp]: "\<not> obs_connected (disconnect obs)"
  by (simp add: disconnect_def)

lemma observer_live_cleanup:
  "observer_live (tracker_cleanup obs s) i \<longleftrightarrow> observer_live s i \<and> i \<notin> set obs"
  by (auto simp: observer_live_def tracker_cleanup_registry split: if_splits)

lemma io_deliver_not_live:
  "\<not> observer_live s i \<Longrightarrow> io_deliver i es s = s"
  by (simp add: io_deliver_def)

subsection \<open>Witnesses\<close>

theorem effect_then_intersection_activates_witness:
  "(\<forall>sec. refs \<lparr>mounted = True, mobileMenuOpen = False, activeSection = ''hero'',
       refs = (\<lambda>sec. Some (SectionNode sec)), effect_cleanup = None, phase = Live,
       theme = None, io_registry = [], scroll_log = []\<rparr> sec = Some (SectionNode sec)) \<and>
   (2::nat) < 6 \<and>
   activeSection
     (io_deliver 2 [\<lparr>entry_target = SectionNode Experience, isIntersecting = True\<rparr>]
        (tracker_effect \<lparr>mounted = True, mobileMenuOpen = False, activeSection = ''hero'',
           refs = (\<lambda>sec. Some (SectionNode sec)), effect_cleanup = None, phase = Live,
           theme = None, io_registry = [], scroll_log = []\<rparr>)) = ''experience''"
  using effect_then_intersection_activates
    [of "\<lparr>mounted = True, mobileMenuOpen = False, activeSection = ''hero'',
          refs = (\<lambda>sec. Some (SectionNode sec)), effect_cleanup = None, phase = Live,
          theme = None, io_registry = [], scroll_log = []\<rparr>" 2]
  by (simp add: sectionRefs_keys_def eval_nat_numeral)

end
