(* ===== verification/Lifecycle.thy ===== *)
theory Lifecycle
  imports Render Tracker
begin

text \<open>
  The life of one \<open>Portfolio\<close> instance, composed the way React runs it.  The
  first render uses the \<open>useState\<close>/\<open>useRef\<close> initial values (lines 13--24) and
  commits.  Then the effect runs once (its dependency list is empty).  The state
  update it queued re-renders and commits.  After that, events arrive one at a time
  and each runs to completion, followed by a re-render and commit: a batch of
  intersection entries delivered to an observer, a click on a desktop or mobile
  link, a press of the menu or theme button, or a direct call of
  \<open>scrollToSection\<close>.  Unmounting runs the effect's cleanup.  A new instance may be
  mounted afterwards; it starts from fresh component state, while the browser (its
  observers and scroll log) and the theme store persist.
\<close>

subsection \<open>Mounting and unmounting\<close>

definition initial_state :: "js_string option \<Rightarrow> io_observer list \<Rightarrow> dom_node list \<Rightarrow> page_state" where
  "initial_state th registry log =
     \<lparr>mounted = False, mobileMenuOpen = False, activeSection = ''hero'',
      refs = (\<lambda>_. None), effect_cleanup = None, phase = NotMounted,
      theme = th, io_registry = registry, scroll_log = log\<rparr>"

definition mount_page :: "js_string option \<Rightarrow> io_observer list \<Rightarrow> dom_node list \<Rightarrow> page_state" where
  "mount_page th registry log =
     commit (tracker_effect (commit ((initial_state th registry log)\<lparr>phase := Live\<rparr>)))"

definition unmount :: "page_state \<Rightarrow> page_state" where
  "unmount s =
     (let s1 = (case effect_cleanup s of None \<Rightarrow> s | Some observers \<Rightarrow> tracker_cleanup observers s)
      in s1\<lparr>effect_cleanup := None, refs := (\<lambda>_. None), phase := Unmounted\<rparr>)"

subsection \<open>Events\<close>

datatype page_event =
    Mount
  | Unmount
  | Intersect nat "io_entry list"
  | NavClick section_id
  | MobileNavClick section_id
  | ToggleMenu
  | ToggleTheme
  | ScrollTo js_string

text \<open>
  Every event but \<open>Mount\<close> needs a live instance.  A click needs the element it
  clicks on: the header is rendered once \<open>mounted\<close> holds, and the mobile links
  only while the menu is open.  After the handler, React re-renders and commits.
\<close>

fun page_step :: "page_event \<Rightarrow> page_state \<Rightarrow> page_state outcome" where
  "page_step Mount s =
     (if phase s = Live then Returned s
      else Returned (mount_page (theme s) (io_registry s) (scroll_log s)))"
| "page_step Unmount s = (if phase s = Live then Returned (unmount s) else Returned s)"
| "page_step (Intersect i es) s =
     (if phase s = Live then Returned (commit (io_deliver i es s)) else Returned s)"
| "page_step (NavClick sec) s =
     (if phase s = Live \<and> mounted s then map_outcome commit (nav_click sec s) else Returned s)"
| "page_step (MobileNavClick sec) s =
     (if phase s = Live \<and> mounted s \<and> mobile_menu s \<noteq> None
      then map_outcome commit (nav_click sec s) else Returned s)"
| "page_step ToggleMenu s =
     (if phase s = Live \<and> mounted s then Returned (commit (toggleMobileMenu s)) else Returned s)"
| "page_step ToggleTheme s =
     (if phase s = Live \<and> mounted s then Returned (commit (toggleTheme s)) else Returned s)"
| "page_step (ScrollTo k) s =
     (if phase s = Live then map_outcome commit (scrollToSection k s) else Returned s)"

fun run :: "page_event list \<Rightarrow> page_state \<Rightarrow> page_state" where
  "run [] s = s"
| "run (e # es) s = run es (outcome_state (page_step e s))"

inductive reachable :: "page_state \<Rightarrow> bool" where
  boot: "reachable (initial_state th [] [])"
| step: "reachable s \<Longrightarrow> reachable (outcome_state (page_step e s))"

subsection \<open>Invariants\<close>

text \<open>Every observer the browser still reports to belongs to the live instance's
  effect and will be disconnected by its cleanup.\<close>

definition teardown_inv :: "page_state \<Rightarrow> bool" where
  "teardown_inv s \<longleftrightarrow>
     (\<forall>i<length (io_registry s). obs_connected (io_registry s ! i) \<longrightarrow>
        phase s = Live \<and> (case effect_cleanup s of None \<Rightarrow> False | Some obs \<Rightarrow> i \<in> set obs))"

text \<open>No observer is connected and the active section is the initial one.\<close>

definition dormant_inv :: "page_state \<Rightarrow> bool" where
  "dormant_inv s \<longleftrightarrow>
     activeSection s = ''hero'' \<and> (\<forall>i<length (io_registry s). \<not> obs_connected (io_registry s ! i))"

subsection \<open>Properties of the page lifecycle\<close>

lemma scrollToSection_fields [frame_simps]:
  "io_registry (outcome_state (scrollToSection k s)) = io_registry s"
  "phase (outcome_state (scrollToSection k s)) = phase s"
  "effect_cleanup (outcome_state (scrollToSection k s)) = effect_cleanup s"
  "activeSection (outcome_state (scrollToSection k s)) = activeSection s"
  "mounted (outcome_state (scrollToSection k s)) = mounted s"
  "theme (outcome_state (scrollToSection k s)) = theme s"
  by (auto simp: scrollToSection_def Let_def scrollIntoView_def split: ref_lookup.splits option.splits)

lemma io_deliver_fields [frame_simps]:
  "io_registry (io_deliver i es s) = io_registry s"
  "phase (io_deliver i es s) = phase s"
  "effect_cleanup (io_deliver i es s) = effect_cleanup s"
  "mounted (io_deliver i es s) = mounted s"
  by (simp_all add: io_deliver_def observer_callback_eq)

lemma toggle_fields [frame_simps]:
  "io_registry (toggleMobileMenu s) = io_registry s" "phase (toggleMobileMenu s) = phase s"
  "effect_cleanup (toggleMobileMenu s) = effect_cleanup s"
  "activeSection (toggleMobileMenu s) = activeSection s"
  "io_registry (toggleTheme s) = io_registry s" "phase (toggleTheme s) = phase s"
  "effect_cleanup (toggleTheme s) = effect_cleanup s"
  "activeSection (toggleTheme s) = activeSection s"
  by (simp_all add: toggleMobileMenu_def toggleTheme_def)

lemma unmount_fields [frame_simps]:
  "activeSection (unmount s) = activeSection s" "mounted (unmount s) = mounted s"
  "theme (unmount s) = theme s" "scroll_log (unmount s) = scroll_log s"
  by (simp_all add: unmount_def tracker_cleanup_def split: option.splits)

lemma page_step_browser_frame:
  assumes "e \<noteq> Mount" and "e \<noteq> Unmount"
  shows "io_registry (outcome_state (page_step e s)) = io_registry s \<and>
         phase (outcome_state (page_step e s)) = phase s \<and>
         effect_cleanup (outcome_state (page_step e s)) = effect_cleanup s"
  using assms by (cases e) (simp_all add: frame_simps nav_click_def)

lemma mount_page_eq:
  "mount_page th reg log =
     (initial_state th reg log)\<lparr>mounted := True, refs := (\<lambda>sec. Some (SectionNode sec)),
        effect_cleanup := Some [], phase := Live\<rparr>"
proof -
  let ?s0 = "(initial_state th reg log)\<lparr>phase := Live\<rparr>"
  have "\<forall>sec. refs (commit ?s0) sec = None"
    by (simp add: commit_refs initial_state_def)
  then have "tracker_effect (commit ?s0) = (commit ?s0)\<lparr>mounted := True, effect_cleanup := Some []\<rparr>"
    by (rule tracker_effect_unobserved)
  then show ?thesis
    by (simp add: mount_page_def commit_def render_def attached_refs_def initial_state_def fun_eq_iff)
qed

lemma observer_live_component_fields [simp]:
  "observer_live (s\<lparr>effect_cleanup := c, refs := r, phase := p\<rparr>) i = observer_live s i"
  by (simp add: observer_live_def)

lemma observer_live_unmount:
  "observer_live (unmount s) i \<longleftrightarrow>
     observer_live s i \<and> (case effect_cleanup s of None \<Rightarrow> True | Some obs \<Rightarrow> i \<notin> set obs)"
  by (simp add: unmount_def observer_live_cleanup split: option.splits)

lemma teardown_inv_live:
  "teardown_inv s \<longleftrightarrow>
     (\<forall>i. observer_live s i \<longrightarrow>
        phase s = Live \<and> (case effect_cleanup s of None \<Rightarrow> False | Some obs \<Rightarrow> i \<in> set obs))"
  by (auto simp: teardown_inv_def observer_live_def)

text \<open>C5. Teardown: when every connected observer belongs to the live instance's
  effect, unmounting leaves no observer connected, so no callback can run
  afterwards.\<close>

theorem unmount_silences_observers:
  assumes "teardown_inv s" and "phase s = Live"
  shows "\<not> observer_live (outcome_state (page_step Unmount s)) i"
  using assms by (auto simp: teardown_inv_live observer_live_unmount split: option.splits)

lemma teardown_inv_mount:
  "teardown_inv s \<Longrightarrow> phase s \<noteq> Live \<Longrightarrow>
   teardown_inv (mount_page (theme s) (io_registry s) (scroll_log s))"
  by (simp add: teardown_inv_def mount_page_eq initial_state_def)

lemma teardown_inv_unmount: "teardown_inv s \<Longrightarrow> teardown_inv (unmount s)"
  by (auto simp: teardown_inv_live observer_live_unmount split: option.splits)

text \<open>C6. Every event keeps that invariant: observers are connected only while
  the instance that created them is live and can still disconnect them.\<close>

theorem teardown_inv_step:
  "teardown_inv s \<Longrightarrow> teardown_inv (outcome_state (page_step e s))"
proof (cases "e = Mount \<or> e = Unmount")
  case True
  assume "teardown_inv s"
  with True show ?thesis
    by (auto simp: teardown_inv_mount teardown_inv_unmount)
next
  case False
  assume inv: "teardown_inv s"
  from False have "io_registry (outcome_state (page_step e s)) = io_registry s \<and>
         phase (outcome_state (page_step e s)) = phase s \<and>
         effect_cleanup (outcome_state (page_step e s)) = effect_cleanup s"
    by (intro page_step_browser_frame) auto
  with inv show ?thesis
    by (simp add: teardown_inv_def)
qed

lemma dormant_inv_live: "dormant_inv s \<longleftrightarrow> activeSection s = ''hero'' \<and> (\<forall>i. \<not> observer_live s i)"
  by (auto simp: dormant_inv_def observer_live_def)

lemma dormant_inv_initial: "dormant_inv (initial_state th [] [])"
  by (simp add: dormant_inv_def initial_state_def)

lemma dormant_inv_step:
  assumes inv: "dormant_inv s"
  shows "dormant_inv (outcome_state (page_step e s))"
proof (cases e)
  case Mount
  with inv show ?thesis
    by (simp add: dormant_inv_def mount_page_eq initial_state_def)
next
  case Unmount
  with inv show ?thesis
    by (auto simp: dormant_inv_live observer_live_unmount frame_simps)
next
  case (Intersect i es)
  from inv have "io_deliver i es s = s"
    by (simp add: dormant_inv_live io_deliver_not_live)
  with inv Intersect show ?thesis
    by (simp add: dormant_inv_def frame_simps)
qed (use inv in \<open>simp_all add: dormant_inv_def frame_simps nav_click_def\<close>)

lemma reachable_run: "reachable s \<Longrightarrow> reachable (run es s)"
proof (induction es arbitrary: s)
  case Nil
  then show ?case by simp
next
  case (Cons e es)
  then show ?case by (simp add: reachable.step)
qed

lemma reachable_dormant: "reachable s \<Longrightarrow> dormant_inv s"
  by (induction rule: reachable.induct) (simp_all add: dormant_inv_initial dormant_inv_step)

text \<open>C2. Consequently, in every state the page can reach, no observer is
  connected and \<open>activeSection\<close> is still \<open>"hero"\<close>, whatever the user scrolls
  or clicks.\<close>

theorem reachable_active_hero:
  "reachable s \<Longrightarrow> activeSection s = ''hero'' \<and> (\<forall>i. \<not> observer_live s i)"
  using reachable_dormant dormant_inv_live by blast

text \<open>C1. Mounting runs the effect while every ref is still \<open>null\<close>: the first
  render returns \<open>null\<close> because \<open>mounted\<close> is false.  After mounting, every
  section element is rendered and attached to its ref, and \<open>activeSection\<close> is
  \<open>"hero"\<close>.  Yet the browser has no new observer, and the effect's cleanup list
  is empty.\<close>

theorem mount_attaches_no_observer:
  "io_registry (mount_page th reg log) = reg \<and>
   effect_cleanup (mount_page th reg log) = Some [] \<and>
   mounted (mount_page th reg log) \<and>
   (\<forall>sec. refs (mount_page th reg log) sec = Some (SectionNode sec)) \<and>
   activeSection (mount_page th reg log) = ''hero''"
  by (simp add: mount_page_eq initial_state_def)

subsection \<open>Witnesses\<close>

theorem reachable_active_hero_witness:
  "reachable (mount_page None [] []) \<and>
   activeSection (mount_page None [] []) = ''hero'' \<and> \<not> observer_live (mount_page None [] []) 0"
proof -
  have "reachable (outcome_state (page_step Mount (initial_state None [] [])))"
    by (rule reachable.step [OF reachable.boot])
  then have r: "reachable (mount_page None [] [])"
    by (simp add: initial_state_def)
  show ?thesis
    using r reachable_active_hero [OF r] by blast
qed

theorem unmount_silences_observers_witness:
  "teardown_inv \<lparr>mounted = True, mobileMenuOpen = False, activeSection = ''hero'',
       refs = (\<lambda>sec. Some (SectionNode sec)), effect_cleanup = Some [0], phase = Live,
       theme = None, io_registry = [observing Hero], scroll_log = []\<rparr> \<and>
   phase \<lparr>mounted = True, mobileMenuOpen = False, activeSection = ''hero'',
       refs = (\<lambda>sec. Some (SectionNode sec)), effect_cleanup = Some [0], phase = Live,
       theme = None, io_registry = [observing Hero], scroll_log = []\<rparr> = Live \<and>
   \<not> observer_live (outcome_state (page_step Unmount
       \<lparr>mounted = True, mobileMenuOpen = False, activeSection = ''hero'',
        refs = (\<lambda>sec. Some (SectionNode sec)), effect_cleanup = Some [0], phase = Live,
        theme = None, io_registry = [observing Hero], scroll_log = []\<rparr>)) 0"
proof -
  have inv: "teardown_inv \<lparr>mounted = True, mobileMenuOpen = False, activeSection = ''hero'',
       refs = (\<lambda>sec. Some (SectionNode sec)), effect_cleanup = Some [0], phase = Live,
       theme = None, io_registry = [observing Hero], scroll_log = []\<rparr>"
    by (simp add: teardown_inv_def)
  show ?thesis
    using inv unmount_silences_observers [OF inv] by simp
qed

theorem teardown_inv_step_witness:
  "teardown_inv \<lparr>mounted = True, mobileMenuOpen = False, activeSection = ''hero'',
       refs = (\<lambda>sec. Some (SectionNode sec)), effect_cleanup = Some [0], phase = Live,
       theme = None, io_registry = [observing Hero], scroll_log = []\<rparr> \<and>
   teardown_inv (outcome_state (page_step (Intersect 0 [\<lparr>entry_target = SectionNode Hero, isIntersecting = True\<rparr>])
       \<lparr>mounted = True, mobileMenuOpen = False, activeSection = ''hero'',
        refs = (\<lambda>sec. Some (SectionNode sec)), effect_cleanup = Some [0], phase = Live,
        theme = None, io_registry = [observing Hero], scroll_log = []\<rparr>))"
proof -
  have inv: "teardown_inv \<lparr>mounted = True, mobileMenuOpen = False, activeSection = ''hero'',
       refs = (\<lambda>sec. Some (SectionNode sec)), effect_cleanup = Some [0], phase = Live,
       theme = None, io_registry = [observing Hero], scroll_log = []\<rparr>"
    by (simp add: teardown_inv_def)
  show ?thesis
    using inv teardown_inv_step [OF inv] by blast
qed


end
