(* ===== verification/Page_Invariants.thy ===== *)
theory Page_Invariants
  imports Lifecycle
begin

text \<open>
  The well-formedness of the page state, which plays the role of its type
  invariant.  It covers the fields whose HOL types are wider than what the
  program can store.  A ref holds either \<open>null\<close> or its own \<open><section>\<close>
  element.  Every observer watches at most its own section's element.  The
  effect's cleanup exists exactly while the instance is live, and the cleanup
  lists only observers that exist.  The mobile menu can be open only once the
  header has been rendered.  \<open>activeSection\<close> is one of the keys of
  \<open>sectionRefs\<close>.  Every event of \<open>page_step\<close> keeps the invariant.
\<close>

definition refs_wf :: "page_state \<Rightarrow> bool" where
  "refs_wf s \<longleftrightarrow> list_all (\<lambda>sec. refs s sec = None \<or> refs s sec = Some (SectionNode sec)) sectionRefs_keys"

definition observer_wf :: "io_observer \<Rightarrow> bool" where
  "observer_wf obs \<longleftrightarrow> list_all (\<lambda>n. n = SectionNode (obs_section obs)) (obs_targets obs)"

definition cleanup_wf :: "page_state \<Rightarrow> bool" where
  "cleanup_wf s \<longleftrightarrow>
     (case effect_cleanup s of
        None \<Rightarrow> phase s \<noteq> Live
      | Some obs \<Rightarrow> phase s = Live \<and> list_all (\<lambda>i. i < length (io_registry s)) obs)"

definition wf_page :: "page_state \<Rightarrow> bool" where
  "wf_page s \<longleftrightarrow>
     refs_wf s \<and> list_all observer_wf (io_registry s) \<and> cleanup_wf s \<and>
     (mobileMenuOpen s \<longrightarrow> mounted s) \<and>
     activeSection s \<in> set (map section_name sectionRefs_keys)"

subsection \<open>Each part of the invariant\<close>

lemma refs_wf_commit [simp]: "refs_wf (commit s)"
  by (simp add: refs_wf_def commit_refs list_all_iff)

lemma refs_wf_unmount [simp]: "refs_wf (unmount s)"
  by (simp add: refs_wf_def unmount_def Let_def list_all_iff)

lemma observer_wf_disconnect [simp]: "observer_wf (disconnect obs)"
  by (simp add: observer_wf_def disconnect_def)

lemma observers_wf_cleanup:
  assumes "list_all observer_wf (io_registry s)"
  shows "list_all observer_wf (io_registry (tracker_cleanup obs s))"
  using assms by (auto simp: list_all_length tracker_cleanup_registry)

lemma active_section_keys: "activeSection s \<in> set (map section_name sectionRefs_keys) \<longleftrightarrow>
    activeSection s \<in> range section_name"
  by (simp add: sectionRefs_keys_set)

lemma cleanup_wf_frame:
  "effect_cleanup t = effect_cleanup s \<Longrightarrow> phase t = phase s \<Longrightarrow>
   length (io_registry t) = length (io_registry s) \<Longrightarrow> cleanup_wf t = cleanup_wf s"
  by (auto simp: cleanup_wf_def split: option.splits)

lemma scrollToSection_menu_closed:
  "\<not> mobileMenuOpen (outcome_state (scrollToSection k s))"
  by (auto simp: scrollToSection_def Let_def scrollIntoView_def split: ref_lookup.splits option.splits)

lemma io_deliver_menu [simp]: "mobileMenuOpen (io_deliver i es s) = mobileMenuOpen s"
  by (simp add: io_deliver_def observer_callback_eq)

lemma wf_page_mount:
  "wf_page s \<Longrightarrow> wf_page (mount_page (theme s) (io_registry s) (scroll_log s))"
  by (simp add: wf_page_def mount_page_eq initial_state_def refs_wf_def cleanup_wf_def
      list_all_iff sectionRefs_keys_def)

lemma unmount_component [simp]:
  "effect_cleanup (unmount s) = None" "phase (unmount s) = Unmounted"
  "mobileMenuOpen (unmount s) = mobileMenuOpen s"
  by (simp_all add: unmount_def Let_def tracker_cleanup_def split: option.splits)

lemma wf_page_unmount:
  assumes "wf_page s"
  shows "wf_page (unmount s)"
proof -
  have "list_all observer_wf (io_registry (unmount s))"
    using assms by (simp add: wf_page_def unmount_def Let_def observers_wf_cleanup split: option.splits)
  then show ?thesis
    using assms by (simp add: wf_page_def cleanup_wf_def frame_simps)
qed

text \<open>The events other than mounting and unmounting keep the browser fields and
  the phase, so only the component fields are left to check.\<close>

lemma wf_page_component_step:
  assumes wf: "wf_page s" and e: "e \<noteq> Mount" "e \<noteq> Unmount"
    and menu: "mobileMenuOpen (outcome_state (page_step e s)) \<longrightarrow> mounted (outcome_state (page_step e s))"
    and active: "activeSection (outcome_state (page_step e s)) \<in> range section_name"
    and refs: "refs_wf (outcome_state (page_step e s))"
  shows "wf_page (outcome_state (page_step e s))"
proof -
  have fr: "io_registry (outcome_state (page_step e s)) = io_registry s \<and>
         phase (outcome_state (page_step e s)) = phase s \<and>
         effect_cleanup (outcome_state (page_step e s)) = effect_cleanup s"
    using e by (rule page_step_browser_frame)
  then have "cleanup_wf (outcome_state (page_step e s)) = cleanup_wf s"
    by (intro cleanup_wf_frame) simp_all
  with wf fr menu active refs show ?thesis
    by (simp add: wf_page_def active_section_keys)
qed

text \<open>C21. The state stays well-formed: every event, from every well-formed state,
  leads to a well-formed state, whether the handler returns or throws.\<close>

theorem wf_page_step:
  assumes wf: "wf_page s"
  shows "wf_page (outcome_state (page_step e s))"
proof (cases e)
  case Mount
  with wf show ?thesis by (simp add: wf_page_mount)
next
  case Unmount
  with wf show ?thesis by (simp add: wf_page_unmount)
next
  case (Intersect i es)
  have "activeSection (io_deliver i es s) \<in> range section_name"
    using wf by (auto simp: io_deliver_def observer_callback_eq wf_page_def active_section_keys)
  with wf Intersect show ?thesis
    by (intro wf_page_component_step) (auto simp: wf_page_def frame_simps)
next
  case (NavClick sec)
  with wf show ?thesis
    by (intro wf_page_component_step)
      (auto simp: wf_page_def frame_simps active_section_keys nav_click_def scrollToSection_menu_closed)
next
  case (MobileNavClick sec)
  with wf show ?thesis
    by (intro wf_page_component_step)
      (auto simp: wf_page_def frame_simps active_section_keys nav_click_def scrollToSection_menu_closed)
next
  case ToggleMenu
  with wf show ?thesis
    by (intro wf_page_component_step) (auto simp: wf_page_def frame_simps active_section_keys toggleMobileMenu_def)
next
  case ToggleTheme
  with wf show ?thesis
    by (intro wf_page_component_step) (auto simp: wf_page_def frame_simps active_section_keys toggleTheme_def)
next
  case (ScrollTo k)
  with wf show ?thesis
    by (intro wf_page_component_step)
      (auto simp: wf_page_def frame_simps active_section_keys scrollToSection_menu_closed)
qed

subsection \<open>Witnesses\<close>

theorem wf_page_step_witness:
  "wf_page \<lparr>mounted = True, mobileMenuOpen = True, activeSection = ''hero'',
       refs = (\<lambda>sec. Some (SectionNode sec)), effect_cleanup = Some [0], phase = Live,
       theme = None, io_registry = [observing About], scroll_log = []\<rparr> \<and>
   wf_page (outcome_state (page_step (Intersect 0 [\<lparr>entry_target = SectionNode About, isIntersecting = True\<rparr>])
     \<lparr>mounted = True, mobileMenuOpen = True, activeSection = ''hero'',
       refs = (\<lambda>sec. Some (SectionNode sec)), effect_cleanup = Some [0], phase = Live,
       theme = None, io_registry = [observing About], scroll_log = []\<rparr>))"
proof -
  have wf: "wf_page \<lparr>mounted = True, mobileMenuOpen = True, activeSection = ''hero'',
       refs = (\<lambda>sec. Some (SectionNode sec)), effect_cleanup = Some [0], phase = Live,
       theme = None, io_registry = [observing About], scroll_log = []\<rparr>"
    by (simp add: wf_page_def refs_wf_def observer_wf_def cleanup_wf_def observing_def sectionRefs_keys_def)
  show ?thesis
    by (rule conjI [OF wf wf_page_step [OF wf]])
qed

end
