(* ===== verification/Tracker_Refinement.thy ===== *)
theory Tracker_Refinement
  imports Page_Invariants
begin

text \<open>
  The abstract active-section machine, as the specification describes it
  (sections 3 and 4.2 of \<open>spec.md\<close>): its states are the registered sections,
  an observer report that a section entered the band makes that section active,
  and a fresh mount starts again at \<open>hero\<close>.  No other input changes the state;
  in particular \<open>scrollToSection\<close> does not set it directly.  The abstraction
  function reads \<open>activeSection\<close> as a section, and the abstraction of events
  maps each \<open>page_step\<close> event to the machine inputs it amounts to.  The
  refinement theorem states that \<open>page_step\<close> and \<open>run\<close> implement the machine.
\<close>

datatype tracker_event = Report section_id | Reset

primrec spec_tracker :: "section_id \<Rightarrow> tracker_event \<Rightarrow> section_id" where
  "spec_tracker a (Report sec) = sec"
| "spec_tracker a Reset = Hero"

definition spec_run :: "section_id \<Rightarrow> tracker_event list \<Rightarrow> section_id" where
  "spec_run a evs = fold (\<lambda>ev a. spec_tracker a ev) evs a"

definition abs_active :: "page_state \<Rightarrow> section_id option" where
  "abs_active s = find (\<lambda>sec. section_name sec = activeSection s) sectionRefs_keys"

text \<open>An intersection batch is a report when a live observer receives it, it is
  a valid batch for that observer, and one of its entries is intersecting.\<close>

fun abs_events :: "page_event \<Rightarrow> page_state \<Rightarrow> tracker_event list" where
  "abs_events Mount s = (if phase s = Live then [] else [Reset])"
| "abs_events (Intersect i es) s =
     (if phase s = Live \<and> observer_live s i \<and> es \<noteq> [] \<and>
         (\<forall>e\<in>set es. entry_target e \<in> set (obs_targets (io_registry s ! i))) \<and>
         (\<exists>e\<in>set es. isIntersecting e)
      then [Report (obs_section (io_registry s ! i))] else [])"
| "abs_events _ s = []"

fun abs_trace :: "page_event list \<Rightarrow> page_state \<Rightarrow> tracker_event list" where
  "abs_trace [] s = []"
| "abs_trace (e # es) s = abs_events e s @ abs_trace es (outcome_state (page_step e s))"

subsection \<open>The simulation, one step at a time\<close>

lemma abs_active_Some: "abs_active s = Some a \<longleftrightarrow> activeSection s = section_name a"
  by (simp add: abs_active_def find_section_name_Some)

lemma spec_run_simps [simp]:
  "spec_run a [] = a" "spec_run a (ev # evs) = spec_run (spec_tracker a ev) evs"
  "spec_run a (evs @ evs') = spec_run (spec_run a evs) evs'"
  by (simp_all add: spec_run_def)

lemma abs_active_step:
  assumes a: "activeSection s = section_name a"
  shows "activeSection (outcome_state (page_step e s)) = section_name (spec_run a (abs_events e s))"
proof (cases e)
  case Mount
  with a show ?thesis by (simp add: mount_page_eq initial_state_def)
next
  case Unmount
  with a show ?thesis by (simp add: frame_simps)
next
  case (Intersect i es)
  with a show ?thesis by (auto simp: io_deliver_def observer_callback_eq frame_simps)
qed (use a in \<open>simp_all add: frame_simps nav_click_def\<close>)

subsection \<open>The refinement theorem\<close>

text \<open>C22. The page implements the abstract tracker: along every run of events,
  from any state whose \<open>activeSection\<close> is a registered section, the section the
  page marks active is the state the abstract machine reaches on the inputs
  that the run amounts to.  Only an observer report or a fresh mount moves it.\<close>

theorem run_refines_tracker:
  assumes "abs_active s = Some a"
  shows "abs_active (run es s) = Some (spec_run a (abs_trace es s))"
  using assms
proof (induction es arbitrary: s a)
  case Nil
  then show ?case by simp
next
  case (Cons e es)
  have "abs_active (outcome_state (page_step e s)) = Some (spec_run a (abs_events e s))"
    using Cons.prems by (simp add: abs_active_Some abs_active_step)
  then show ?case
    using Cons.IH by simp
qed

subsection \<open>Witnesses\<close>

theorem run_refines_tracker_witness:
  "abs_active \<lparr>mounted = True, mobileMenuOpen = True, activeSection = ''hero'',
       refs = (\<lambda>sec. Some (SectionNode sec)), effect_cleanup = Some [0], phase = Live,
       theme = None, io_registry = [observing About], scroll_log = []\<rparr> = Some Hero \<and>
   abs_active (run [Intersect 0 [\<lparr>entry_target = SectionNode About, isIntersecting = True\<rparr>], NavClick Skills]
     \<lparr>mounted = True, mobileMenuOpen = True, activeSection = ''hero'',
       refs = (\<lambda>sec. Some (SectionNode sec)), effect_cleanup = Some [0], phase = Live,
       theme = None, io_registry = [observing About], scroll_log = []\<rparr>) =
   Some (spec_run Hero (abs_trace [Intersect 0 [\<lparr>entry_target = SectionNode About, isIntersecting = True\<rparr>], NavClick Skills]
     \<lparr>mounted = True, mobileMenuOpen = True, activeSection = ''hero'',
       refs = (\<lambda>sec. Some (SectionNode sec)), effect_cleanup = Some [0], phase = Live,
       theme = None, io_registry = [observing About], scroll_log = []\<rparr>)) \<and>
   spec_run Hero (abs_trace [Intersect 0 [\<lparr>entry_target = SectionNode About, isIntersecting = True\<rparr>], NavClick Skills]
     \<lparr>mounted = True, mobileMenuOpen = True, activeSection = ''hero'',
       refs = (\<lambda>sec. Some (SectionNode sec)), effect_cleanup = Some [0], phase = Live,
       theme = None, io_registry = [observing About], scroll_log = []\<rparr>) = About"
proof -
  have a: "abs_active \<lparr>mounted = True, mobileMenuOpen = True, activeSection = ''hero'',
       refs = (\<lambda>sec. Some (SectionNode sec)), effect_cleanup = Some [0], phase = Live,
       theme = None, io_registry = [observing About], scroll_log = []\<rparr> = Some Hero"
    by (simp add: abs_active_Some)
  have t: "spec_run Hero (abs_trace [Intersect 0 [\<lparr>entry_target = SectionNode About, isIntersecting = True\<rparr>], NavClick Skills]
     \<lparr>mounted = True, mobileMenuOpen = True, activeSection = ''hero'',
       refs = (\<lambda>sec. Some (SectionNode sec)), effect_cleanup = Some [0], phase = Live,
       theme = None, io_registry = [observing About], scroll_log = []\<rparr>) = About"
    by (simp add: observer_live_def observing_def)
  show ?thesis
    by (intro conjI a run_refines_tracker [OF a] t)
qed

end
