(* ===== verification/Viewport.thy ===== *)
theory Viewport
  imports Tracker
begin

text \<open>
  The browser's side of the tracker's observers: when an observed element moves
  relative to the viewport, the \<open>IntersectionObserver\<close> algorithm decides whether
  to queue an entry and with which \<open>isIntersecting\<close> flag.  This follows the W3C
  algorithm "run the update intersection observations steps" for one observer and
  one target.  It is not code of the repository; it is modelled so that the
  callback of \<open>src/app/page.tsx\<close> (lines 69--75) can be read against the entries it
  actually receives.  Positions are vertical CSS pixels relative to the top of the
  viewport, of height \<open>H\<close>.  The root intersection rectangle is the viewport grown
  by the observer's \<open>rootMargin\<close>, which the browser parses from the options
  string (W3C "parse a root margin"); only its top and bottom matter here.  Lengths
  are kept in hundredths of a pixel, so that a percentage margin needs no division:
  the options of line 61 give the band \<open>[20H, 80H]\<close>.
\<close>

text \<open>What the browser remembers per observed target: the last threshold index and
  intersection state it reported (\<open>-1\<close> and false before the first report).\<close>

record io_registration =
  prev_threshold_index :: int
  prev_is_intersecting :: bool

definition initial_registration :: io_registration where
  "initial_registration = \<lparr>prev_threshold_index = -1, prev_is_intersecting = False\<rparr>"

subsection \<open>The root margin\<close>

text \<open>A margin token is a pixel length or a percentage of the root's height.\<close>

datatype margin_len = MarginPx int | MarginPct int

text \<open>The tokens of the margin string, separated by spaces.\<close>

fun split_spaces :: "js_string \<Rightarrow> js_string \<Rightarrow> js_string list" where
  "split_spaces acc [] = [rev acc]"
| "split_spaces acc (c # cs) =
     (if c = CHR '' '' then rev acc # split_spaces [] cs else split_spaces (c # acc) cs)"

definition css_tokens :: "js_string \<Rightarrow> js_string list" where
  "css_tokens s = filter (\<lambda>w. w \<noteq> []) (split_spaces [] s)"

definition digit_char :: "char \<Rightarrow> bool" where
  "digit_char c \<longleftrightarrow> (48::nat) \<le> of_char c \<and> of_char c < (58::nat)"

definition parse_unsigned :: "js_string \<Rightarrow> int option" where
  "parse_unsigned ds =
     (if ds \<noteq> [] \<and> list_all digit_char ds
      then Some (foldl (\<lambda>acc c. 10 * acc + int (of_char c - 48)) 0 ds) else None)"

text \<open>An optionally signed integer followed by \<open>%\<close> or \<open>px\<close>; anything else fails
  to parse.\<close>

definition parse_margin_len :: "js_string \<Rightarrow> margin_len option" where
  "parse_margin_len w =
     (let neg = (w \<noteq> [] \<and> hd w = CHR ''-'');
          body = (if neg then tl w else w);
          sign = (if neg then -1 else 1)
      in if body \<noteq> [] \<and> last body = CHR ''%''
         then map_option (\<lambda>n. MarginPct (sign * n)) (parse_unsigned (butlast body))
         else if 2 \<le> length body \<and> drop (length body - 2) body = ''px''
         then map_option (\<lambda>n. MarginPx (sign * n)) (parse_unsigned (take (length body - 2) body))
         else None)"

text \<open>One to four tokens, in the order of the CSS \<open>margin\<close> shorthand (top, right,
  bottom, left); the result is the top and the bottom margin.\<close>

definition parse_root_margin :: "js_string \<Rightarrow> (margin_len \<times> margin_len) option" where
  "parse_root_margin s =
     (case those (map parse_margin_len (css_tokens s)) of
        Some [mt] \<Rightarrow> Some (mt, mt)
      | Some [mt, _] \<Rightarrow> Some (mt, mt)
      | Some [mt, _, mb] \<Rightarrow> Some (mt, mb)
      | Some [mt, _, mb, _] \<Rightarrow> Some (mt, mb)
      | _ \<Rightarrow> None)"

primrec margin_h :: "int \<Rightarrow> margin_len \<Rightarrow> int" where
  "margin_h H (MarginPx n) = 100 * n"
| "margin_h H (MarginPct p) = p * H"

text \<open>The band \<open>[lo, hi]\<close> of the root intersection rectangle, in hundredths of a
  pixel: the viewport \<open>[0, 100 H]\<close> grown by the top and bottom margins.  A margin
  string that does not parse makes the constructor throw a \<open>SyntaxError\<close>; the
  model then keeps the bare viewport, a case the page's options do not reach
  (\<open>io_band_observerOptions\<close>).\<close>

definition io_band :: "io_options \<Rightarrow> int \<Rightarrow> int \<times> int" where
  "io_band opts H =
     (case parse_root_margin (io_rootMargin opts) of
        Some (mt, mb) \<Rightarrow> (- margin_h H mt, 100 * H + margin_h H mb)
      | None \<Rightarrow> (0, 100 * H))"

subsection \<open>The update step\<close>

text \<open>The element \<open>[t, b]\<close> meets the band \<open>bd\<close>, edge-adjacency included.\<close>

definition io_is_intersecting :: "int \<times> int \<Rightarrow> int \<Rightarrow> int \<Rightarrow> bool" where
  "io_is_intersecting bd t b \<longleftrightarrow> max (100 * t) (fst bd) \<le> min (100 * b) (snd bd)"

definition io_overlap :: "int \<times> int \<Rightarrow> int \<Rightarrow> int \<Rightarrow> int" where
  "io_overlap bd t b = max 0 (min (100 * b) (snd bd) - max (100 * t) (fst bd))"

text \<open>With the single threshold \<open>pct/100\<close>: index 1 once the visible share of the
  element, \<open>io_overlap / (100 (b - t))\<close>, reaches the threshold; 0 otherwise (also
  when the element does not intersect, where the ratio is 0).\<close>

definition io_threshold_index :: "nat \<Rightarrow> int \<times> int \<Rightarrow> int \<Rightarrow> int \<Rightarrow> int" where
  "io_threshold_index pct bd t b =
     (if io_is_intersecting bd t b \<and> int pct * (b - t) \<le> io_overlap bd t b then 1 else 0)"

text \<open>An entry is queued when the threshold index or the intersection state has
  changed since the last report.\<close>

definition io_update ::
  "io_options \<Rightarrow> int \<Rightarrow> dom_node \<Rightarrow> int \<times> int \<Rightarrow> io_registration \<Rightarrow> io_entry option \<times> io_registration" where
  "io_update opts H node tb r =
     (let (t, b) = tb;
          bd = io_band opts H;
          isI = io_is_intersecting bd t b;
          idx = io_threshold_index (io_threshold_pct opts) bd t b
      in if idx = prev_threshold_index r \<and> isI = prev_is_intersecting r then (None, r)
         else (Some \<lparr>entry_target = node, isIntersecting = isI\<rparr>,
               \<lparr>prev_threshold_index = idx, prev_is_intersecting = isI\<rparr>))"

subsection \<open>Properties of the intersection geometry\<close>

text \<open>The options of line 61: threshold 20\%, and the band of the parsed margin
  \<open>-20% 0px -20% 0px\<close>.\<close>

lemma observerOptions_pct [simp]: "io_threshold_pct observerOptions = 20"
  by (simp add: observerOptions_def)

lemma io_band_observerOptions [simp]: "io_band observerOptions H = (20 * H, 80 * H)"
  by (simp add: io_band_def observerOptions_def parse_root_margin_def css_tokens_def
      parse_margin_len_def parse_unsigned_def digit_char_def)

lemma io_overlap_le_band: "fst bd \<le> snd bd \<Longrightarrow> io_overlap bd t b \<le> snd bd - fst bd"
  by (simp add: io_overlap_def)

text \<open>C17. The tracker's callback activates a section as soon as it touches the
  band, not once 20\% of it is visible: the entry queued on entering carries
  \<open>isIntersecting\<close>, which is all the callback tests (the witness has 1\% visible).\<close>

theorem tracker_activates_below_threshold:
  assumes "io_is_intersecting (io_band observerOptions H) t b" and "\<not> prev_is_intersecting r"
  shows "map_option (\<lambda>e. activeSection (observer_callback sec [e] s))
           (fst (io_update observerOptions H node (t, b) r)) = Some (section_name sec)"
  using assms by (simp add: io_update_def observer_callback_eq)

text \<open>C18. A section on its way out re-activates itself.  When its visible share
  falls below 20\% while it still meets the band, the threshold index drops from 1 to
  0.  The browser queues an entry that still has \<open>isIntersecting\<close> true, and the
  callback sets \<open>activeSection\<close> back to the section that is leaving.\<close>

theorem leaving_section_reactivated:
  assumes "io_is_intersecting (io_band observerOptions H) t b"
    and "io_threshold_index (io_threshold_pct observerOptions) (io_band observerOptions H) t b = 0"
    and "prev_threshold_index r = 1"
  shows "map_option (\<lambda>e. activeSection (observer_callback sec [e] s))
           (fst (io_update observerOptions H node (t, b) r)) = Some (section_name sec)"
  using assms by (simp add: io_update_def observer_callback_eq)

text \<open>C19. With the options of line 61, a section taller than three viewport
  heights never reaches the 20\% threshold: the margin \<open>-20%\<close> at the top and at the
  bottom leaves a band of three fifths of the viewport, and at most that much of
  the section is ever visible.\<close>

theorem tall_section_never_reaches_threshold:
  "0 \<le> H \<Longrightarrow> 3 * H < b - t \<Longrightarrow>
   io_threshold_index (io_threshold_pct observerOptions) (io_band observerOptions H) t b = 0"
  using io_overlap_le_band [of "io_band observerOptions H" t b]
  by (simp add: io_threshold_index_def)

subsection \<open>Witnesses\<close>

theorem tracker_activates_below_threshold_witness:
  "io_is_intersecting (io_band observerOptions 1000) 790 1790 \<and> \<not> prev_is_intersecting initial_registration \<and>
   io_threshold_index (io_threshold_pct observerOptions) (io_band observerOptions 1000) 790 1790 = 0 \<and>
   map_option (\<lambda>e. activeSection (observer_callback About [e]
       \<lparr>mounted = True, mobileMenuOpen = False, activeSection = ''hero'',
        refs = (\<lambda>sec. Some (SectionNode sec)), effect_cleanup = Some [], phase = Live,
        theme = None, io_registry = [], scroll_log = []\<rparr>))
     (fst (io_update observerOptions 1000 (SectionNode About) (790, 1790) initial_registration)) =
   Some ''about''"
proof -
  have i: "io_is_intersecting (io_band observerOptions 1000) 790 1790" by (simp add: io_is_intersecting_def)
  have p: "\<not> prev_is_intersecting initial_registration" by (simp add: initial_registration_def)
  have z: "io_threshold_index (io_threshold_pct observerOptions) (io_band observerOptions 1000) 790 1790 = 0"
    by (simp add: io_threshold_index_def io_is_intersecting_def io_overlap_def)
  show ?thesis
    using i p z tracker_activates_below_threshold [OF i p, of About] by simp
qed

theorem leaving_section_reactivated_witness:
  "io_is_intersecting (io_band observerOptions 1000) (-790) 210 \<and>
   io_threshold_index (io_threshold_pct observerOptions) (io_band observerOptions 1000) (-790) 210 = 0 \<and>
   prev_threshold_index \<lparr>prev_threshold_index = 1, prev_is_intersecting = True\<rparr> = 1 \<and>
   map_option (\<lambda>e. activeSection (observer_callback Experience [e]
       \<lparr>mounted = True, mobileMenuOpen = False, activeSection = ''education'',
        refs = (\<lambda>sec. Some (SectionNode sec)), effect_cleanup = Some [], phase = Live,
        theme = None, io_registry = [], scroll_log = []\<rparr>))
     (fst (io_update observerOptions 1000 (SectionNode Experience) (-790, 210)
        \<lparr>prev_threshold_index = 1, prev_is_intersecting = True\<rparr>)) =
   Some ''experience''"
proof -
  have i: "io_is_intersecting (io_band observerOptions 1000) (-790) 210" by (simp add: io_is_intersecting_def)
  have z: "io_threshold_index (io_threshold_pct observerOptions) (io_band observerOptions 1000) (-790) 210 = 0"
    by (simp add: io_threshold_index_def io_is_intersecting_def io_overlap_def)
  have p: "prev_threshold_index \<lparr>prev_threshold_index = 1, prev_is_intersecting = True\<rparr> = 1"
    by simp
  show ?thesis
    using i z p leaving_section_reactivated [OF i z p, of Experience] by simp
qed

theorem tall_section_never_reaches_threshold_witness:
  "(0::int) \<le> 800 \<and> 3 * (800::int) < 3000 - 0 \<and>
   io_threshold_index (io_threshold_pct observerOptions) (io_band observerOptions 800) 0 3000 = 0"
proof -
  have h: "(0::int) \<le> 800" and l: "3 * (800::int) < 3000 - 0" by simp_all
  show ?thesis using h l tall_section_never_reaches_threshold [OF h l] by blast
qed

end
