(* ===== verification/Scrolling.thy ===== *)
theory Scrolling
  imports Viewport Page_Invariants
begin

text \<open>
  The page as the browser lays it out, composed with the tracker.  The sticky
  header comes first in the document (line 102), then the six sections in the
  order of \<open>page_sections\<close>, which is the key order of \<open>sectionRefs\<close>, then
  the footer.  On every animation frame the browser runs the intersection
  observations of every observer in creation order, and the callbacks of the
  observers that received entries.  Heights are CSS pixels.  The layout is an
  input: it depends on the viewport width and the fonts, which the model does not
  compute.
\<close>

record page_layout =
  lay_viewport :: int
  lay_header :: int
  lay_height :: "section_id \<Rightarrow> int"
  lay_footer :: int

definition section_top :: "page_layout \<Rightarrow> section_id \<Rightarrow> int" where
  "section_top L sec =
     lay_header L + sum_list (map (lay_height L) (takeWhile (\<lambda>x. x \<noteq> sec) sectionRefs_keys))"

text \<open>The section's element relative to the viewport top, at scroll offset \<open>y\<close>.\<close>

definition section_rect :: "page_layout \<Rightarrow> int \<Rightarrow> section_id \<Rightarrow> int \<times> int" where
  "section_rect L y sec = (section_top L sec - y, section_top L sec - y + lay_height L sec)"

subsection \<open>One animation frame\<close>

text \<open>The section's element meets the band of the observer options of line 61.\<close>

definition in_band :: "page_layout \<Rightarrow> int \<Rightarrow> section_id \<Rightarrow> bool" where
  "in_band L y sec \<longleftrightarrow>
     io_is_intersecting (io_band observerOptions (lay_viewport L))
       (fst (section_rect L y sec)) (snd (section_rect L y sec))"

text \<open>
  The update step of observer \<open>i\<close> for its section's element, followed by its
  callback if it queued an entry.  The callbacks only write component state, which
  the geometry does not read, so running each callback right after its observer's
  update gives the same state as queueing all entries first.  Each observer has one
  registration, for its own section's element, which is the only target the
  tracker gives it.
\<close>

definition io_frame_one ::
  "page_layout \<Rightarrow> int \<Rightarrow> nat \<Rightarrow> io_registration list \<times> page_state \<Rightarrow> io_registration list \<times> page_state" where
  "io_frame_one L y i rs =
     (let (regs, s) = rs; obs = io_registry s ! i; node = SectionNode (obs_section obs) in
      if observer_live s i \<and> node \<in> set (obs_targets obs) then
        (let (eo, r) = io_update (obs_options obs) (lay_viewport L) node
                         (section_rect L y (obs_section obs)) (regs ! i)
         in (regs[i := r],
             case eo of None \<Rightarrow> s | Some e \<Rightarrow> outcome_state (page_step (Intersect i [e]) s)))
      else (regs, s))"

definition io_frame ::
  "page_layout \<Rightarrow> int \<Rightarrow> io_registration list \<times> page_state \<Rightarrow> io_registration list \<times> page_state" where
  "io_frame L y rs = fold (io_frame_one L y) [0..<length (io_registry (snd rs))] rs"

text \<open>What the first frame after \<open>observe()\<close> leaves active: every observer
  reports once, so the last section in key order that meets the band wins.\<close>

definition last_in_band :: "page_layout \<Rightarrow> int \<Rightarrow> section_id list \<Rightarrow> js_string \<Rightarrow> js_string" where
  "last_in_band L y ks a = (case filter (in_band L y) ks of [] \<Rightarrow> a | xs \<Rightarrow> section_name (last xs))"

subsection \<open>Properties of one frame\<close>

lemma io_update_initial:
  "io_update opts H node (t, b) initial_registration =
     (Some \<lparr>entry_target = node, isIntersecting = io_is_intersecting (io_band opts H) t b\<rparr>,
      \<lparr>prev_threshold_index = io_threshold_index (io_threshold_pct opts) (io_band opts H) t b,
       prev_is_intersecting = io_is_intersecting (io_band opts H) t b\<rparr>)"
  by (simp add: io_update_def initial_registration_def io_threshold_index_def Let_def)

lemma io_frame_one_initial:
  assumes i: "i < length (io_registry s)" "io_registry s ! i = observing sec"
    and live: "phase s = Live" and r: "regs ! i = initial_registration"
  shows "length (fst (io_frame_one L y i (regs, s))) = length regs"
    and "\<And>j. j \<noteq> i \<Longrightarrow> fst (io_frame_one L y i (regs, s)) ! j = regs ! j"
    and "io_registry (snd (io_frame_one L y i (regs, s))) = io_registry s"
    and "phase (snd (io_frame_one L y i (regs, s))) = Live"
    and "activeSection (snd (io_frame_one L y i (regs, s))) =
           (if in_band L y sec then section_name sec else activeSection s)"
proof -
  have ob: "observer_live s i" "SectionNode sec \<in> set (obs_targets (io_registry s ! i))"
    using i by (simp_all add: observer_live_def observing_def)
  obtain t b where tb: "section_rect L y sec = (t, b)" by fastforce
  have eq: "io_frame_one L y i (regs, s) =
      (regs[i := \<lparr>prev_threshold_index = io_threshold_index 20 (io_band observerOptions (lay_viewport L)) t b,
                  prev_is_intersecting = io_is_intersecting (io_band observerOptions (lay_viewport L)) t b\<rparr>],
       commit (io_deliver i [\<lparr>entry_target = SectionNode sec, isIntersecting = in_band L y sec\<rparr>] s))"
    using i ob live r tb
    by (simp add: io_frame_one_def io_update_initial observing_def in_band_def del: io_band_observerOptions)
  show "length (fst (io_frame_one L y i (regs, s))) = length regs"
    "\<And>j. j \<noteq> i \<Longrightarrow> fst (io_frame_one L y i (regs, s)) ! j = regs ! j"
    by (simp_all add: eq)
  show "io_registry (snd (io_frame_one L y i (regs, s))) = io_registry s"
    "phase (snd (io_frame_one L y i (regs, s))) = Live"
    using live by (simp_all add: eq frame_simps)
  show "activeSection (snd (io_frame_one L y i (regs, s))) =
           (if in_band L y sec then section_name sec else activeSection s)"
    using i ob by (simp add: eq frame_simps io_deliver_def observer_callback_eq observing_def)
qed

lemma last_in_band_if:
  "last_in_band L y ks a =
     (if filter (in_band L y) ks = [] then a else section_name (last (filter (in_band L y) ks)))"
  by (simp add: last_in_band_def split: list.split)

lemma last_in_band_snoc:
  "last_in_band L y (xs @ [x]) a = (if in_band L y x then section_name x else last_in_band L y xs a)"
  by (simp add: last_in_band_if)

lemma io_frame_prefix:
  assumes reg: "io_registry s = map observing ks" and live: "phase s = Live"
    and len: "length regs = length ks" and init: "\<forall>j<length ks. regs ! j = initial_registration"
  shows "n \<le> length ks \<Longrightarrow>
     length (fst (fold (io_frame_one L y) [0..<n] (regs, s))) = length ks \<and>
     (\<forall>j. n \<le> j \<longrightarrow> j < length ks \<longrightarrow> fst (fold (io_frame_one L y) [0..<n] (regs, s)) ! j = initial_registration) \<and>
     io_registry (snd (fold (io_frame_one L y) [0..<n] (regs, s))) = io_registry s \<and>
     phase (snd (fold (io_frame_one L y) [0..<n] (regs, s))) = Live \<and>
     activeSection (snd (fold (io_frame_one L y) [0..<n] (regs, s))) = last_in_band L y (take n ks) (activeSection s)"
proof (induction n)
  case 0
  then show ?case using len init live by (simp add: last_in_band_def)
next
  case (Suc n)
  obtain regs' s' where rs: "fold (io_frame_one L y) [0..<n] (regs, s) = (regs', s')" by fastforce
  from Suc rs have ih: "length regs' = length ks"
      "\<forall>j. n \<le> j \<longrightarrow> j < length ks \<longrightarrow> regs' ! j = initial_registration"
      "io_registry s' = io_registry s" "phase s' = Live"
      "activeSection s' = last_in_band L y (take n ks) (activeSection s)"
    by simp_all
  have n: "n < length (io_registry s')" "io_registry s' ! n = observing (ks ! n)"
    using Suc.prems ih(3) reg by simp_all
  have r: "regs' ! n = initial_registration" using ih(2) Suc.prems by simp
  note one = io_frame_one_initial [where L = L and y = y, OF n ih(4) r]
  have take: "take (Suc n) ks = take n ks @ [ks ! n]"
    using Suc.prems by (simp add: take_Suc_conv_app_nth)
  show ?case
    using one ih Suc.prems
    by (auto simp: rs take last_in_band_snoc)
qed

text \<open>C23. Had the effect run after the sections were attached, the first frame
  after \<open>observe()\<close> would not leave \<open>"hero"\<close> active: every observer reports
  once, and \<open>activeSection\<close> ends as the last section, in key order, that meets
  the band.  On a tall viewport at the top of the page this is \<open>"about"\<close>.\<close>

theorem first_frame_last_in_band:
  assumes refs: "\<forall>sec. refs s sec = Some (SectionNode sec)"
    and empty: "io_registry s = []" and live: "phase s = Live"
  shows "activeSection (snd (io_frame L y (replicate 6 initial_registration, tracker_effect s))) =
           last_in_band L y sectionRefs_keys (activeSection s)"
proof -
  have reg: "io_registry (tracker_effect s) = map observing sectionRefs_keys"
    and ph: "phase (tracker_effect s) = Live"
    and act: "activeSection (tracker_effect s) = activeSection s"
    using refs empty live by (simp_all add: tracker_effect_observes_all)
  have six: "length sectionRefs_keys = 6" by (simp add: sectionRefs_keys_def)
  have "activeSection (snd (fold (io_frame_one L y) [0..<length sectionRefs_keys]
           (replicate 6 initial_registration, tracker_effect s))) =
        last_in_band L y (take (length sectionRefs_keys) sectionRefs_keys) (activeSection (tracker_effect s))"
    using io_frame_prefix [where regs = "replicate 6 initial_registration" and n = "length sectionRefs_keys"
        and L = L and y = y, OF reg ph] six
    by simp
  then show ?thesis
    using reg six act by (simp add: io_frame_def)
qed

subsection \<open>Witnesses\<close>

theorem first_frame_last_in_band_witness:
  "(\<forall>sec. refs \<lparr>mounted = True, mobileMenuOpen = False, activeSection = ''hero'',
       refs = (\<lambda>sec. Some (SectionNode sec)), effect_cleanup = None, phase = Live,
       theme = None, io_registry = [], scroll_log = []\<rparr> sec = Some (SectionNode sec)) \<and> io_registry \<lparr>mounted = True, mobileMenuOpen = False, activeSection = ''hero'',
       refs = (\<lambda>sec. Some (SectionNode sec)), effect_cleanup = None, phase = Live,
       theme = None, io_registry = [], scroll_log = []\<rparr> = [] \<and> phase \<lparr>mounted = True, mobileMenuOpen = False, activeSection = ''hero'',
       refs = (\<lambda>sec. Some (SectionNode sec)), effect_cleanup = None, phase = Live,
       theme = None, io_registry = [], scroll_log = []\<rparr> = Live \<and>
   activeSection (snd (io_frame \<lparr>lay_viewport = 1000, lay_header = 64, lay_height = (\<lambda>sec. if sec = Hero then 500 else 900), lay_footer = 50\<rparr> 0 (replicate 6 initial_registration, tracker_effect \<lparr>mounted = True, mobileMenuOpen = False, activeSection = ''hero'',
       refs = (\<lambda>sec. Some (SectionNode sec)), effect_cleanup = None, phase = Live,
       theme = None, io_registry = [], scroll_log = []\<rparr>))) =
     last_in_band \<lparr>lay_viewport = 1000, lay_header = 64, lay_height = (\<lambda>sec. if sec = Hero then 500 else 900), lay_footer = 50\<rparr> 0 sectionRefs_keys (activeSection \<lparr>mounted = True, mobileMenuOpen = False, activeSection = ''hero'',
       refs = (\<lambda>sec. Some (SectionNode sec)), effect_cleanup = None, phase = Live,
       theme = None, io_registry = [], scroll_log = []\<rparr>) \<and>
   last_in_band \<lparr>lay_viewport = 1000, lay_header = 64, lay_height = (\<lambda>sec. if sec = Hero then 500 else 900), lay_footer = 50\<rparr> 0 sectionRefs_keys (activeSection \<lparr>mounted = True, mobileMenuOpen = False, activeSection = ''hero'',
       refs = (\<lambda>sec. Some (SectionNode sec)), effect_cleanup = None, phase = Live,
       theme = None, io_registry = [], scroll_log = []\<rparr>) = ''about''"
proof -
  have h: "\<forall>sec. refs \<lparr>mounted = True, mobileMenuOpen = False, activeSection = ''hero'',
       refs = (\<lambda>sec. Some (SectionNode sec)), effect_cleanup = None, phase = Live,
       theme = None, io_registry = [], scroll_log = []\<rparr> sec = Some (SectionNode sec)" "io_registry \<lparr>mounted = True, mobileMenuOpen = False, activeSection = ''hero'',
       refs = (\<lambda>sec. Some (SectionNode sec)), effect_cleanup = None, phase = Live,
       theme = None, io_registry = [], scroll_log = []\<rparr> = []" "phase \<lparr>mounted = True, mobileMenuOpen = False, activeSection = ''hero'',
       refs = (\<lambda>sec. Some (SectionNode sec)), effect_cleanup = None, phase = Live,
       theme = None, io_registry = [], scroll_log = []\<rparr> = Live"
    by simp_all
  have a: "last_in_band \<lparr>lay_viewport = 1000, lay_header = 64, lay_height = (\<lambda>sec. if sec = Hero then 500 else 900), lay_footer = 50\<rparr> 0 sectionRefs_keys (activeSection \<lparr>mounted = True, mobileMenuOpen = False, activeSection = ''hero'',
       refs = (\<lambda>sec. Some (SectionNode sec)), effect_cleanup = None, phase = Live,
       theme = None, io_registry = [], scroll_log = []\<rparr>) = ''about''"
    by (simp add: last_in_band_def in_band_def section_rect_def section_top_def io_is_intersecting_def
        sectionRefs_keys_def)
  show ?thesis
    by (intro conjI h first_frame_last_in_band [OF h] a)
qed

end
