(* ===== verification/Presentation.thy ===== *)
theory Presentation
  imports Prelude
begin

text \<open>
  The presentational parts of \<open>src/app/page.tsx\<close> that hold data: the three
  animation variants (lines 26--55), passed to \<open>framer-motion\<close> as
  \<open>variants\<close>, and the footer (lines 776--789), whose text interpolates the
  current year.  Opacity is a percentage, offsets are CSS pixels, and durations
  are hundredths of a second.  The year is rendered by React as
  \<open>String(n)\<close>, its decimal digits.  These are data of the page; the
  development states no property of them.
\<close>

subsection \<open>Animation variants\<close>

record motion_transition =
  tr_duration_cs :: "nat option"
  tr_ease :: "js_string option"
  tr_stagger_cs :: "nat option"

record motion_target =
  mt_opacity_pct :: nat
  mt_y :: "int option"
  mt_transition :: "motion_transition option"

record motion_variants =
  hidden :: motion_target
  visible :: motion_target

definition fadeIn :: motion_variants where
  "fadeIn =
     \<lparr>hidden = \<lparr>mt_opacity_pct = 0, mt_y = Some 20, mt_transition = None\<rparr>,
      visible = \<lparr>mt_opacity_pct = 100, mt_y = Some 0,
                 mt_transition = Some \<lparr>tr_duration_cs = Some 60, tr_ease = Some ''easeOut'',
                                       tr_stagger_cs = None\<rparr>\<rparr>\<rparr>"

definition staggerContainer :: motion_variants where
  "staggerContainer =
     \<lparr>hidden = \<lparr>mt_opacity_pct = 0, mt_y = None, mt_transition = None\<rparr>,
      visible = \<lparr>mt_opacity_pct = 100, mt_y = None,
                 mt_transition = Some \<lparr>tr_duration_cs = None, tr_ease = None,
                                       tr_stagger_cs = Some 20\<rparr>\<rparr>\<rparr>"

definition itemFade :: motion_variants where
  "itemFade =
     \<lparr>hidden = \<lparr>mt_opacity_pct = 0, mt_y = Some 20, mt_transition = None\<rparr>,
      visible = \<lparr>mt_opacity_pct = 100, mt_y = Some 0,
                 mt_transition = Some \<lparr>tr_duration_cs = Some 50, tr_ease = None,
                                       tr_stagger_cs = None\<rparr>\<rparr>\<rparr>"

subsection \<open>The footer\<close>

text \<open>\<open>String(n)\<close> for a non-negative integer: its decimal digits.\<close>

fun js_digits :: "nat \<Rightarrow> js_string" where
  "js_digits n =
     (if n < 10 then [char_of (48 + n)] else js_digits (n div 10) @ [char_of (48 + n mod 10)])"

text \<open>
  The footer paragraph of line 786.  The source file holds the UTF-8 bytes
  \<open>C3 82 C2 A9\<close> before the year, which decode to the two characters U+00C2
  (\<open>A\<close> with circumflex) and U+00A9 (the copyright sign): the copyright sign was
  encoded twice.  JSX keeps the spaces around the expression on its line.
\<close>

definition footer_prefix :: js_string where
  "footer_prefix = [char_of (194::nat), char_of (169::nat), CHR '' '']"

definition footer_suffix :: js_string where
  "footer_suffix = '' Sabina Maharjan. All rights reserved.''"

definition footer_text :: "nat \<Rightarrow> js_string" where
  "footer_text year = footer_prefix @ js_digits year @ footer_suffix"

end
