(* ===== verification/Spec2Isabelle.thy ===== *)
theory Spec2Isabelle
  imports Tracker_Refinement Scrolling Presentation
begin

text \<open>
  \<^bold>\<open>A model of the portfolio page and its active-section tracker.\<close>

  The repository is one React component, \<open>Portfolio\<close> in \<open>src/app/page.tsx\<close>.  It
  renders a header (desktop links, a mobile menu, a theme button) and six sections.
  Its logic is small but stateful.  Three \<open>useState\<close> cells (\<open>mounted\<close>,
  \<open>mobileMenuOpen\<close>, \<open>activeSection\<close>) and the six refs of \<open>sectionRefs\<close> are the
  component's state.  An effect with an empty dependency list attaches one
  \<open>IntersectionObserver\<close> per section, and its callback writes \<open>activeSection\<close>.
  The handler \<open>scrollToSection\<close> closes the menu and requests a smooth scroll to a
  section.  The header highlights the link of \<open>activeSection\<close>.  The theme button
  toggles the \<open>next-themes\<close> store.

  \<^bold>\<open>Theories.\<close>
  \<^item> \<open>Prelude\<close>: named collections (\<open>page_simps\<close>, \<open>frame_simps\<close>) and the generic
    lemmas behind the two \<open>forEach\<close> loops: a guarded idempotent update folded over a
    list (last write wins), and an idempotent update folded over list positions.
  \<^item> \<open>Sections\<close>: the registry \<open>sectionRefs\<close> (lines 17--24): the datatype
    \<open>section_id\<close>, the keys in \<open>Object.keys\<close> order (\<open>sectionRefs_keys\<close>,
    \<open>section_name\<close>), property access with any string (\<open>sectionRefs_get\<close>, line 89),
    the linked sections (\<open>nav_sections\<close>) and their labels (\<open>capitalize\<close>, line
    131, written with the string primitives \<open>js_charAt\<close>, \<open>js_toUpperCase\<close> and
    \<open>js_slice\<close>).
  \<^item> \<open>Page_State\<close>: the record \<open>page_state\<close> of the component's cells and refs, the
    effect's stored cleanup, React's lifecycle phase, the theme store, and the
    browser's observers and scroll log; the \<open>outcome\<close> of a handler, which may
    have thrown.
  \<^item> \<open>Tracker\<close>: the effect of lines 57--84 (\<open>tracker_effect\<close>, the loop
    \<open>attach_observers\<close>, \<open>tracker_cleanup\<close>), the callback \<open>observer_callback\<close>,
    and the browser's \<open>new_IntersectionObserver\<close>, \<open>observe\<close>, \<open>disconnect\<close> and
    \<open>io_deliver\<close>.
  \<^item> \<open>Navigation\<close>: \<open>scrollToSection\<close> (lines 87--93), the link, menu and theme
    handlers, and the state-dependent header (\<open>desktop_nav\<close>, \<open>mobile_menu\<close>, icons).
    Both link lists are written as the code writes them: a child per key, \<open>false\<close>
    for \<open>hero\<close> (\<open>desktop_child\<close>, \<open>mobile_child\<close>), and React dropping the
    \<open>false\<close> children (\<open>react_children\<close>).  Each copy builds its own element
    (\<open>desktop_link_of\<close> with its class and fade-in delay, \<open>mobile_link_of\<close>).
    \<open>scrollIntoView\<close> is the browser's; a call is recorded in the scroll log.
  \<^item> \<open>Content\<close>: the six section elements (\<open>hero_section\<close> to
    \<open>contact_section\<close>: ref, \<open>id\<close>, heading) in document order (\<open>page_sections\<close>),
    and the data the sections map over, with their React keys: hero badges, jobs and
    duties, education modules, skill and language bars, contact items (link or
    text), and the browser's reading of an anchor's \<open>rel\<close>.
  \<^item> \<open>Render\<close>: \<open>render\<close> (\<open>null\<close> until \<open>mounted\<close>, lines 95--97) and React's
    \<open>commit\<close>, which points each ref at its rendered element.
  \<^item> \<open>Lifecycle\<close>: \<open>initial_state\<close>, \<open>mount_page\<close> (first render, commit,
    effect, re-render), \<open>unmount\<close>, the event type \<open>page_event\<close>, the step function
    \<open>page_step\<close> (each handler followed by a commit), \<open>run\<close>, the reachable states,
    and two invariants: \<open>teardown_inv\<close> and \<open>dormant_inv\<close>.
  \<^item> \<open>Viewport\<close>: the browser's intersection algorithm for one observer and one
    target (\<open>io_update\<close>).  The observer's \<open>rootMargin\<close> string is parsed as the
    browser parses it (\<open>css_tokens\<close>, \<open>parse_margin_len\<close>, \<open>parse_root_margin\<close>)
    into the vertical band of the root (\<open>io_band\<close>); the options of line 61 give
    the band from 20\% to 80\% of the viewport.  Then come the 20\% threshold, and when
    an entry is queued and with which \<open>isIntersecting\<close>.  This is browser semantics
    from the W3C specification, modelled to read the callback against real entries.
  \<^item> \<open>Page_Invariants\<close>: the well-formedness \<open>wf_page\<close> of a page state (refs
    hold \<open>null\<close> or their own element, observers watch their own section, the
    cleanup exists exactly while live and names existing observers, the menu is
    open only once mounted, \<open>activeSection\<close> is a key), preserved by every event.
  \<^item> \<open>Tracker_Refinement\<close>: the specification's abstract tracker (\<open>spec_tracker\<close>:
    sections as states, observer reports and remounts as inputs), the abstraction
    \<open>abs_active\<close> of a page state and \<open>abs_events\<close> of an event, and the
    refinement of the abstract machine by \<open>run\<close>.
  \<^item> \<open>Scrolling\<close>: the document layout (sticky header, the six sections in order,
    footer) as an input \<open>page_layout\<close>, and one animation frame of every
    observer's update and callback (\<open>io_frame\<close>), run on the observers the effect
    would attach.
  \<^item> \<open>Presentation\<close>: the animation variants of lines 26--55 as data, and the
    footer (lines 776--789) with the year rendered as decimal digits.  No property
    is stated of them.
  \<^item> This theory: properties that span the components (the specification's
    scenario, and what a reachable page shows).

  \<^bold>\<open>What the lemmas show.\<close>
  The effect body is correct in isolation: run after the sections are rendered, it
  observes every section, and an intersection report then activates that section.
  Simultaneous reports resolve by arrival order (last write wins).  Unmounting
  disconnects every observer, and every event keeps the invariant that only the
  live instance's observers are connected.  But React runs the effect after the
  first render, and that render returns \<open>null\<close> because \<open>mounted\<close> is still false.
  Every ref is therefore \<open>null\<close> when the effect reads it, so no observer is ever
  attached (\<open>mount_attaches_no_observer\<close>).  In every reachable state
  \<open>activeSection\<close> is \<open>"hero"\<close> and no link is highlighted.
  \<open>scrollToSection\<close> never throws from a link and never writes \<open>activeSection\<close>.
  Called with an unknown string it throws a \<open>TypeError\<close>, where the specification
  asks for a no-op.  Called with a name inherited from \<open>Object.prototype\<close> it is a
  silent no-op that still closes the menu.  The theme button alternates between the
  two literals, and from \<open>"system"\<close> (or no stored theme) it always selects
  \<open>"dark"\<close> first.  Every event keeps the page state well-formed, and
  \<open>page_step\<close> refines the specification's tracker: only an observer report or a
  remount moves the active section.  The mobile menu repeats the desktop links
  exactly, and every new-tab anchor of the contact section carries \<open>noopener\<close>.
  Had the observers been attached, the callback would still not follow the
  specification's band rule.  It tests only \<open>isIntersecting\<close>, so it activates a
  section that merely touches the band, and it re-activates a section whose visible
  share drops below the threshold as it leaves.  A section taller than three viewport
  heights never reaches the threshold at all; this follows from the parsed
  \<open>rootMargin\<close>, and a different margin string changes it.  The first frame after
  \<open>observe()\<close> reports every section, so the last section meeting the band, not
  \<open>"hero"\<close>, would be active after loading.

  \<^bold>\<open>Bounds and fuel.\<close>  Every loop of the code is a \<open>forEach\<close> or \<open>map\<close> over a
  finite list, modelled by structural recursion (\<open>fun\<close>, \<open>fold\<close>); no fuel is
  needed.  The page's runs are finite event lists (\<open>run\<close>); the reachable states
  are closed under every event.  Layout lengths are integers in CSS pixels; the
  intersection geometry uses hundredths of a pixel so that percentage margins and
  the 20\% threshold need no division.

  \<^bold>\<open>Not modelled.\<close>  Styling, copy text and icons' shapes are presentational; the
  animation variants are data, and \<open>framer-motion\<close>'s interpolation between them is
  not modelled.  The libraries (\<open>next-themes\<close>, UI components, \<open>lucide-react\<close>) are
  modelled only through the values the page reads and writes; the skills tabs'
  selection state belongs to the UI library and is not modelled, only the panels'
  content.  The layout is an input: the model does not compute heights from CSS,
  fonts or the viewport width.  The smooth scroll itself (where \<open>scrollIntoView\<close>
  ends and the frames on the way) is the browser's and is not modelled; a call is
  recorded in the scroll log.  \<open>js_toUpperCase\<close> maps ASCII letters only, which
  covers the six section keys.  React's strict-mode double effect run is not
  modelled; it would run the same effect again against the same \<open>null\<close> refs.

  \<^bold>\<open>Plan.\<close>  Next: scroll histories in which observers report while sections move
  through the band (beyond the first frame), to state which section a completed
  scroll leaves active.
\<close>


text \<open>C15. On every reachable rendering of the page, no desktop navigation link
  is highlighted.\<close>

theorem reachable_nothing_highlighted:
  "reachable s \<Longrightarrow> render s = Some v \<Longrightarrow> \<not> (\<exists>l\<in>set (pv_nav v). link_active l)"
  using reachable_dormant
  by (auto simp: render_def desktop_nav_eq desktop_link_of_def dormant_inv_def
      split: if_splits)

theorem reachable_nothing_highlighted_witness:
  "reachable (mount_page None [] []) \<and> render (mount_page None [] []) = Some (the (render (mount_page None [] []))) \<and>
   \<not> (\<exists>l\<in>set (pv_nav (the (render (mount_page None [] [])))). link_active l)"
proof -
  have "reachable (outcome_state (page_step Mount (initial_state None [] [])))"
    by (rule reachable.step [OF reachable.boot])
  then have r: "reachable (mount_page None [] [])"
    by (simp add: initial_state_def)
  have v: "render (mount_page None [] []) = Some (the (render (mount_page None [] [])))"
    by (simp add: render_def mount_page_eq)
  show ?thesis
    using r v reachable_nothing_highlighted [OF r v] by blast
qed

end
